theory Spec2Isabelle
  imports Complex_Main
begin

section \<open>Python values\<close>

text \<open>
  A Python \<^verbatim>\<open>float\<close> is an IEEE double: a finite number, one of the two infinities, or
  NaN. Finite doubles are modelled by the real number they denote; the three special
  values are kept apart because comparisons and conversions treat them differently.
  The two zeros of a double are one value here, so the minus sign that the formats
  print for \<^verbatim>\<open>-0.0\<close> is outside the model.
\<close>

datatype pyfloat = Fin real | PInf | NInf | NaN

text \<open>\<^verbatim>\<open>a >= b\<close> on floats: every comparison with NaN is false.\<close>

fun float_ge :: "pyfloat \<Rightarrow> pyfloat \<Rightarrow> bool" where
  "float_ge NaN _ = False"
| "float_ge _ NaN = False"
| "float_ge PInf _ = True"
| "float_ge _ NInf = True"
| "float_ge NInf _ = False"
| "float_ge _ PInf = False"
| "float_ge (Fin a) (Fin b) = (b \<le> a)"

text \<open>\<^verbatim>\<open>a < b\<close> on floats.\<close>

fun float_lt :: "pyfloat \<Rightarrow> pyfloat \<Rightarrow> bool" where
  "float_lt NaN _ = False"
| "float_lt _ NaN = False"
| "float_lt PInf _ = False"
| "float_lt _ NInf = False"
| "float_lt NInf _ = True"
| "float_lt _ PInf = True"
| "float_lt (Fin a) (Fin b) = (a < b)"

section \<open>Configuration (src/core/config.py)\<close>

text \<open>The fields of \<^verbatim>\<open>Settings\<close> that the modelled functions read, with their defaults.\<close>

record settings =
  investigation_time_window_minutes :: int
  confidence_threshold_for_action :: pyfloat

definition default_settings :: settings where
  "default_settings =
     \<lparr> investigation_time_window_minutes = 60,
       confidence_threshold_for_action = Fin (7 / 10) \<rparr>"

section \<open>Routing decision (src/agents/commander.py, should_act_or_report)\<close>

text \<open>
  The function reads one key of the state dictionary, \<^verbatim>\<open>state.get("confidence", 0.0)\<close>:
  \<open>None\<close> is the key being absent, \<open>Some c\<close> the key holding the float \<open>c\<close>.
\<close>

definition should_act_or_report :: "settings \<Rightarrow> pyfloat option \<Rightarrow> string" where
  "should_act_or_report cfg state_confidence =
     (let confidence = (case state_confidence of None \<Rightarrow> Fin 0 | Some c \<Rightarrow> c) in
      if float_ge confidence (confidence_threshold_for_action cfg) then ''act''
      else ''report'')"

text \<open>
  C2. The routing decision returns "act" exactly when the confidence is at least the
  configured threshold (inclusive), and "report" otherwise; with the default threshold
  0.7 the confidences 0.85 and 0.7 route to "act" and 0.3 to "report"; an absent
  confidence counts as 0.0.
\<close>

theorem should_act_or_report_threshold:
  "(should_act_or_report cfg (Some c) = ''act'') =
      float_ge c (confidence_threshold_for_action cfg)
   \<and> (should_act_or_report cfg (Some c) = ''report'') =
      (\<not> float_ge c (confidence_threshold_for_action cfg))
   \<and> should_act_or_report cfg (Some (confidence_threshold_for_action cfg)) =
      (if confidence_threshold_for_action cfg = NaN then ''report'' else ''act'')
   \<and> should_act_or_report cfg None = should_act_or_report cfg (Some (Fin 0))
   \<and> confidence_threshold_for_action default_settings = Fin (7 / 10)
   \<and> should_act_or_report default_settings (Some (Fin (85 / 100))) = ''act''
   \<and> should_act_or_report default_settings (Some (Fin (3 / 10))) = ''report''
   \<and> should_act_or_report default_settings (Some (Fin (7 / 10))) = ''act''"
  by (cases "confidence_threshold_for_action cfg")
     (simp_all add: should_act_or_report_def default_settings_def)

theorem should_act_or_report_threshold_witness:
  "(should_act_or_report default_settings (Some (Fin (1 / 2))) = ''act'') = False
   \<and> should_act_or_report default_settings (Some (Fin (1 / 2))) = ''report''"
  using should_act_or_report_threshold [of default_settings "Fin (1 / 2)"]
  by (simp add: default_settings_def)

section \<open>Token-bucket rate limiter (src/core/rate_limiter.py)\<close>

text \<open>
  The limiter's fields. Token counts and the monotonic clock are Python floats; they are
  modelled by real numbers (the rounding of double arithmetic is not modelled). The
  clock is an input: every call of \<^verbatim>\<open>time.monotonic()\<close> is a reading passed in.
\<close>

record limiter =
  requests_per_minute :: int
  burst_size :: int
  tokens :: real
  last_refill :: real

text \<open>Construction with \<^verbatim>\<open>__post_init__\<close>, at clock reading \<open>now\<close>.\<close>

definition new_limiter :: "int \<Rightarrow> int \<Rightarrow> real \<Rightarrow> limiter" where
  "new_limiter rpm burst now =
     \<lparr> requests_per_minute = rpm, burst_size = burst,
       tokens = real_of_int burst, last_refill = now \<rparr>"

text \<open>\<^verbatim>\<open>_refill\<close>, at clock reading \<open>now\<close>.\<close>

definition refill :: "real \<Rightarrow> limiter \<Rightarrow> limiter" where
  "refill now l =
     (let elapsed = now - last_refill l;
          amount = elapsed * (real_of_int (requests_per_minute l) / 60)
      in l\<lparr> tokens := min (tokens l + amount) (real_of_int (burst_size l)),
            last_refill := now \<rparr>)"

text \<open>\<^verbatim>\<open>tokens_remaining\<close>: refills, then reads the count.\<close>

definition tokens_remaining :: "real \<Rightarrow> limiter \<Rightarrow> real \<times> limiter" where
  "tokens_remaining now l = (let l' = refill now l in (tokens l', l'))"

text \<open>
  \<^verbatim>\<open>acquire\<close>. The list holds the clock readings the call sees, in order: the first is
  read by the refill on entry, each later one by the refill after a sleep. The loop
  leaves as soon as a refill finds at least one token, and then deducts one. \<open>None\<close>
  means that the call is still waiting when the readings are used up.
\<close>

fun acquire :: "real list \<Rightarrow> limiter \<Rightarrow> limiter option" where
  "acquire [] l = None"
| "acquire (now # later) l =
     (let l' = refill now l in
      if tokens l' < 1 then acquire later l'
      else Some (l'\<lparr> tokens := tokens l' - 1 \<rparr>))"

text \<open>The state in which a completed \<^verbatim>\<open>acquire\<close> deducts: after its last refill.\<close>

fun before_deduct :: "real list \<Rightarrow> limiter \<Rightarrow> limiter option" where
  "before_deduct [] l = None"
| "before_deduct (now # later) l =
     (let l' = refill now l in
      if tokens l' < 1 then before_deduct later l' else Some l')"

text \<open>A history of the limiter: refills (as \<^verbatim>\<open>tokens_remaining\<close> does) and acquires.\<close>

datatype limiter_op = Refill real | Acquire "real list"

fun run_ops :: "limiter_op list \<Rightarrow> limiter \<Rightarrow> limiter option" where
  "run_ops [] l = Some l"
| "run_ops (Refill now # ops) l = run_ops ops (refill now l)"
| "run_ops (Acquire readings # ops) l =
     (case acquire readings l of None \<Rightarrow> None | Some l' \<Rightarrow> run_ops ops l')"

definition within_burst :: "limiter \<Rightarrow> bool" where
  "within_burst l = (tokens l \<le> real_of_int (burst_size l))"

lemma refill_within_burst: "within_burst (refill now l)"
  by (simp add: within_burst_def refill_def Let_def)

lemma refill_params:
  "requests_per_minute (refill now l) = requests_per_minute l"
  "burst_size (refill now l) = burst_size l"
  by (simp_all add: refill_def Let_def)

lemma acquire_within_burst: "acquire readings l = Some l' \<Longrightarrow> within_burst l'"
proof (induction readings arbitrary: l)
  case Nil
  then show ?case by simp
next
  case (Cons now later)
  show ?case
  proof (cases "tokens (refill now l) < 1")
    case True
    with Cons show ?thesis by (simp add: Let_def)
  next
    case False
    have "within_burst (refill now l)" by (rule refill_within_burst)
    with False Cons.prems show ?thesis
      by (auto simp: Let_def within_burst_def)
  qed
qed

lemma acquire_params:
  "acquire readings l = Some l' \<Longrightarrow>
     requests_per_minute l' = requests_per_minute l \<and> burst_size l' = burst_size l"
proof (induction readings arbitrary: l)
  case Nil
  then show ?case by simp
next
  case (Cons now later)
  show ?case
  proof (cases "tokens (refill now l) < 1")
    case True
    with Cons.prems have "acquire later (refill now l) = Some l'" by (simp add: Let_def)
    from Cons.IH [OF this] show ?thesis by (simp add: refill_params)
  next
    case False
    with Cons.prems show ?thesis by (auto simp: Let_def refill_params)
  qed
qed

lemma acquire_deducts:
  "acquire readings l = Some l' \<Longrightarrow>
     \<exists>pre. before_deduct readings l = Some pre \<and> 1 \<le> tokens pre
       \<and> tokens l' = tokens pre - 1 \<and> l' = pre\<lparr> tokens := tokens pre - 1 \<rparr>"
proof (induction readings arbitrary: l)
  case Nil
  then show ?case by simp
next
  case (Cons now later)
  show ?case
  proof (cases "tokens (refill now l) < 1")
    case True
    with Cons show ?thesis by (simp add: Let_def)
  next
    case False
    with Cons.prems show ?thesis by (auto simp: Let_def)
  qed
qed

lemma run_ops_within_burst:
  "within_burst l \<Longrightarrow> run_ops ops l = Some l' \<Longrightarrow> within_burst l'"
proof (induction ops arbitrary: l)
  case Nil
  then show ?case by simp
next
  case (Cons op ops)
  show ?case
  proof (cases op)
    case (Refill now)
    with Cons.prems have "run_ops ops (refill now l) = Some l'" by simp
    from Cons.IH [OF refill_within_burst this] show ?thesis .
  next
    case (Acquire readings)
    with Cons.prems obtain m where m: "acquire readings l = Some m" "run_ops ops m = Some l'"
      by (auto split: option.splits)
    from Cons.IH [OF acquire_within_burst [OF m(1)] m(2)] show ?thesis .
  qed
qed

lemma run_ops_params:
  "run_ops ops l = Some l' \<Longrightarrow>
     requests_per_minute l' = requests_per_minute l \<and> burst_size l' = burst_size l"
proof (induction ops arbitrary: l)
  case Nil
  then show ?case by simp
next
  case (Cons op ops)
  show ?case
  proof (cases op)
    case (Refill now)
    with Cons.prems have "run_ops ops (refill now l) = Some l'" by simp
    from Cons.IH [OF this] show ?thesis by (simp add: refill_params)
  next
    case (Acquire readings)
    with Cons.prems obtain m where m: "acquire readings l = Some m" "run_ops ops m = Some l'"
      by (auto split: option.splits)
    from Cons.IH [OF m(2)] acquire_params [OF m(1)] show ?thesis by simp
  qed
qed

text \<open>
  C5. Right after construction the token count equals the burst size; a refill sets the
  count to min(burst, tokens + elapsed * (rpm / 60)) and the last-refill time to now;
  after any history of refills and completed acquires the count is at most the burst
  size; and a completed acquire deducts exactly one token, from a count of at least one.
\<close>

theorem limiter_token_bucket:
  "tokens (new_limiter rpm burst t0) = real_of_int burst
   \<and> tokens (refill now l) =
       min (real_of_int (burst_size l))
           (tokens l + (now - last_refill l) * (real_of_int (requests_per_minute l) / 60))
   \<and> last_refill (refill now l) = now
   \<and> (run_ops ops (new_limiter rpm burst t0) = Some l' \<longrightarrow>
        tokens l' \<le> real_of_int burst)
   \<and> (acquire readings l = Some l'' \<longrightarrow>
        (\<exists>pre. before_deduct readings l = Some pre \<and> 1 \<le> tokens pre
           \<and> tokens l'' = tokens pre - 1))"
proof -
  have init: "within_burst (new_limiter rpm burst t0)"
    by (simp add: within_burst_def new_limiter_def)
  have inv: "tokens l' \<le> real_of_int burst" if r: "run_ops ops (new_limiter rpm burst t0) = Some l'"
  proof -
    have "within_burst l'" by (rule run_ops_within_burst [OF init r])
    moreover have "burst_size l' = burst"
      using run_ops_params [OF r] by (simp add: new_limiter_def)
    ultimately show ?thesis by (simp add: within_burst_def)
  qed
  show ?thesis
    using inv acquire_deducts [of readings l l'']
    by (auto simp: new_limiter_def refill_def Let_def min.commute)
qed

theorem limiter_token_bucket_witness:
  "run_ops [Acquire [0], Refill 120] (new_limiter 60 5 0) =
      Some \<lparr> requests_per_minute = 60, burst_size = 5, tokens = 5, last_refill = 120 \<rparr>
   \<and> tokens \<lparr> requests_per_minute = 60, burst_size = 5, tokens = 5, last_refill = 120 \<rparr>
        \<le> real_of_int 5
   \<and> acquire [0] (new_limiter 60 5 0) =
      Some \<lparr> requests_per_minute = 60, burst_size = 5, tokens = 4, last_refill = 0 \<rparr>
   \<and> (\<exists>pre. before_deduct [0] (new_limiter 60 5 0) = Some pre \<and> 1 \<le> tokens pre
         \<and> tokens \<lparr> requests_per_minute = 60, burst_size = 5, tokens = 4, last_refill = 0 \<rparr>
            = tokens pre - 1)"
proof -
  have run: "run_ops [Acquire [0], Refill 120] (new_limiter 60 5 0) =
      Some \<lparr> requests_per_minute = 60, burst_size = 5, tokens = 5, last_refill = 120 \<rparr>"
    by (simp add: new_limiter_def refill_def Let_def)
  have acq: "acquire [0] (new_limiter 60 5 0) =
      Some \<lparr> requests_per_minute = 60, burst_size = 5, tokens = 4, last_refill = 0 \<rparr>"
    by (simp add: new_limiter_def refill_def Let_def)
  from limiter_token_bucket [where rpm = 60 and burst = 5 and ?t0.0 = 0
      and ops = "[Acquire [0], Refill 120]"
      and l' = "\<lparr> requests_per_minute = 60, burst_size = 5, tokens = 5, last_refill = 120 \<rparr>"
      and readings = "[0]" and l = "new_limiter 60 5 0"
      and l'' = "\<lparr> requests_per_minute = 60, burst_size = 5, tokens = 4, last_refill = 0 \<rparr>"]
    run acq
  show ?thesis by blast
qed

text \<open>
  The examples of the limiter's tests: five acquires in a row from a burst of 5 leave
  less than one token; 120 seconds at 60 requests per minute refill to exactly 5.
\<close>

lemma limiter_examples:
  "run_ops [Acquire [0], Acquire [0], Acquire [0], Acquire [0], Acquire [0]]
      (new_limiter 30 5 0) =
     Some \<lparr> requests_per_minute = 30, burst_size = 5, tokens = 0, last_refill = 0 \<rparr>"
  "tokens (refill 120 (new_limiter 60 5 0)) = 5"
  by (simp_all add: new_limiter_def refill_def Let_def)

text \<open>
  An acquire that finds less than one token waits for a later reading: with one token
  per second, an empty bucket serves the call at the reading one second on.
\<close>

lemma acquire_waits:
  "acquire [0] \<lparr> requests_per_minute = 60, burst_size = 5, tokens = 0, last_refill = 0 \<rparr>
     = None"
  "acquire [0, 1] \<lparr> requests_per_minute = 60, burst_size = 5, tokens = 0, last_refill = 0 \<rparr>
     = Some \<lparr> requests_per_minute = 60, burst_size = 5, tokens = 0, last_refill = 1 \<rparr>"
  by (simp_all add: refill_def Let_def)

section \<open>Dynamic values\<close>

text \<open>
  The values that reach the dynamically typed parameters of the modelled functions:
  the parsed form of a JSON text, a template variable, a keyword argument.
\<close>

datatype pyval =
    PyNone
  | PyBool bool
  | PyInt int
  | PyFloat pyfloat
  | PyStr string
  | PyList "pyval list"
  | PyDict "(string \<times> pyval) list"

text \<open>The classes of the exceptions that the modelled code raises or catches by name.\<close>

datatype exn_class =
  TypeError | ValueError | OverflowError | AttributeError | ValidationError | OtherError

section \<open>Decimal text\<close>

definition digit_char :: "nat \<Rightarrow> char" where
  "digit_char d = ''0123456789'' ! d"

fun str_nat :: "nat \<Rightarrow> string" where
  "str_nat n =
     (if n < 10 then [digit_char n] else str_nat (n div 10) @ [digit_char (n mod 10)])"

declare str_nat.simps [simp del]

text \<open>\<^verbatim>\<open>str(i)\<close> of an int.\<close>

definition str_int :: "int \<Rightarrow> string" where
  "str_int i = (if i < 0 then CHR ''-'' # str_nat (nat (- i)) else str_nat (nat i))"

text \<open>Rounding to the nearest integer, ties to the even one, as float formatting does.\<close>

definition round_half_even :: "real \<Rightarrow> int" where
  "round_half_even x =
     (let f = \<lfloor>x\<rfloor>; d = x - of_int f in
      if d < 1 / 2 then f else if 1 / 2 < d then f + 1
      else if even f then f else f + 1)"

definition zero_pad :: "nat \<Rightarrow> string \<Rightarrow> string" where
  "zero_pad w s = replicate (w - length s) CHR ''0'' @ s"

text \<open>
  The format \<^verbatim>\<open>.<d>f\<close> of a finite float: the value correctly rounded to \<open>d\<close>
  decimals, with a minus sign for a negative value and no point when \<open>d = 0\<close>.
\<close>

definition format_fixed :: "nat \<Rightarrow> real \<Rightarrow> string" where
  "format_fixed d x =
     (let n = nat (round_half_even (\<bar>x\<bar> * 10 ^ d)) in
      (if x < 0 then ''-'' else '''') @ str_nat (n div 10 ^ d) @
      (if d = 0 then '''' else ''.'' @ zero_pad d (str_nat (n mod 10 ^ d))))"

fun float_format :: "nat \<Rightarrow> pyfloat \<Rightarrow> string" where
  "float_format d (Fin x) = format_fixed d x"
| "float_format d PInf = ''inf''"
| "float_format d NInf = ''-inf''"
| "float_format d NaN = ''nan''"

text \<open>
  \<^verbatim>\<open>str(value)\<close>. The text of a list, a dict or a finite float is the interpreter's
  work and is the parameter \<open>repr\<close>.
\<close>

fun py_str :: "(pyval \<Rightarrow> string) \<Rightarrow> pyval \<Rightarrow> string" where
  "py_str repr (PyStr s) = s"
| "py_str repr PyNone = ''None''"
| "py_str repr (PyBool b) = (if b then ''True'' else ''False'')"
| "py_str repr (PyInt i) = str_int i"
| "py_str repr (PyFloat NaN) = ''nan''"
| "py_str repr (PyFloat PInf) = ''inf''"
| "py_str repr (PyFloat NInf) = ''-inf''"
| "py_str repr v = repr v"

section \<open>Double arithmetic and conversion to float\<close>

text \<open>
  An arithmetic operation on finite doubles yields the double nearest to the exact
  result, ties going to the neighbour with an even significand. For a non-zero real
  \<^verbatim>\<open>p\<close>, \<^verbatim>\<open>binary_exponent p\<close> is the exponent \<^verbatim>\<open>e\<close> with
  \<^verbatim>\<open>2^e <= |p| < 2^(e+1)\<close>; the doubles of that binade are the multiples of
  \<^verbatim>\<open>2^(e-52)\<close>, and below \<^verbatim>\<open>2^(-1022)\<close> (the subnormal range) the multiples of
  \<^verbatim>\<open>2^(-1074)\<close>. A result of magnitude \<^verbatim>\<open>2^1024\<close> or more is an infinity.
\<close>

fun bit_length :: "nat \<Rightarrow> nat" where
  "bit_length n = (if n = 0 then 0 else Suc (bit_length (n div 2)))"

declare bit_length.simps [simp del]

definition pow2 :: "int \<Rightarrow> real" where
  "pow2 k = (if 0 \<le> k then 2 ^ nat k else 1 / 2 ^ nat (- k))"

definition binary_exponent :: "real \<Rightarrow> int" where
  "binary_exponent p =
     (if 1 \<le> \<bar>p\<bar> then int (bit_length (nat \<lfloor>\<bar>p\<bar>\<rfloor>)) - 1
      else - int (bit_length (nat (\<lceil>1 / \<bar>p\<bar>\<rceil> - 1))))"

definition round_double :: "real \<Rightarrow> real" where
  "round_double p =
     (if p = 0 then 0
      else let ulp = pow2 (max (binary_exponent p) (- 1022) - 52)
           in of_int (round_half_even (p / ulp)) * ulp)"

definition float_of_real :: "real \<Rightarrow> pyfloat" where
  "float_of_real p =
     (let r = round_double p
      in if 2 ^ 1024 \<le> r then PInf else if r \<le> - (2 ^ 1024) then NInf else Fin r)"

text \<open>
  \<^verbatim>\<open>int(x // y)\<close> for finite floats \<^verbatim>\<open>0 <= x\<close> and \<^verbatim>\<open>0 < y\<close>. The interpreter
  takes the remainder \<^verbatim>\<open>rem = fmod(x, y)\<close>, which is exact, computes
  \<^verbatim>\<open>quot = (x - rem) / y\<close> in double arithmetic, and returns the floor of
  \<^verbatim>\<open>quot\<close>, plus one if \<^verbatim>\<open>quot\<close> lies more than one half above its floor.
\<close>

definition float_floordiv :: "real \<Rightarrow> real \<Rightarrow> int" where
  "float_floordiv x y =
     (let rem = x - y * of_int \<lfloor>x / y\<rfloor>;
          quot = round_double (round_double (x - rem) / y)
      in if 1 / 2 < quot - of_int \<lfloor>quot\<rfloor> then \<lfloor>quot\<rfloor> + 1 else \<lfloor>quot\<rfloor>)"

text \<open>
  \<^verbatim>\<open>float(value)\<close>. Parsing a string is the interpreter's work and is a parameter:
  \<open>parse s = None\<close> means that \<^verbatim>\<open>float(s)\<close> raises ValueError. An int becomes
  the double nearest to it; an int whose nearest double would lie beyond the largest
  double raises OverflowError.
\<close>

fun py_float :: "(string \<Rightarrow> pyfloat option) \<Rightarrow> pyval \<Rightarrow> exn_class + pyfloat" where
  "py_float parse (PyFloat f) = Inr f"
| "py_float parse (PyInt i) =
     (if \<bar>i\<bar> < 2 ^ 1024 - 2 ^ 970 then Inr (Fin (round_double (of_int i)))
      else Inl OverflowError)"
| "py_float parse (PyBool b) = Inr (Fin (if b then 1 else 0))"
| "py_float parse (PyStr s) =
     (case parse s of Some f \<Rightarrow> Inr f | None \<Rightarrow> Inl ValueError)"
| "py_float parse PyNone = Inl TypeError"
| "py_float parse (PyList xs) = Inl TypeError"
| "py_float parse (PyDict kvs) = Inl TypeError"

section \<open>Report formatting filters (src/reports/generator.py)\<close>

text \<open>The handler \<^verbatim>\<open>except (TypeError, ValueError): return str(value)\<close>.\<close>

definition fmt_fallback :: "(pyval \<Rightarrow> string) \<Rightarrow> pyval \<Rightarrow> exn_class \<Rightarrow> exn_class + string" where
  "fmt_fallback repr v e =
     (if e = TypeError \<or> e = ValueError then Inr (py_str repr v) else Inl e)"

text \<open>
  \<^verbatim>\<open>_fmt_percent\<close>. The format \<^verbatim>\<open>.0%\<close> multiplies the float by 100 in double
  arithmetic, so the product is rounded to a double before it is formatted with no
  decimals: the double nearest to 0.855 times 100 is exactly 85.5, which prints as 86.
\<close>

fun times100 :: "pyfloat \<Rightarrow> pyfloat" where
  "times100 (Fin x) = float_of_real (x * 100)"
| "times100 f = f"

definition fmt_percent ::
  "(string \<Rightarrow> pyfloat option) \<Rightarrow> (pyval \<Rightarrow> string) \<Rightarrow> pyval \<Rightarrow> exn_class + string" where
  "fmt_percent parse repr v =
     (if v = PyNone then Inr ''N/A''
      else case py_float parse v of
             Inl e \<Rightarrow> fmt_fallback repr v e
           | Inr f \<Rightarrow> Inr (float_format 0 (times100 f) @ ''%''))"

text \<open>
  \<^verbatim>\<open>_fmt_duration\<close>. For NaN and for an infinity that is not below 60, the floor
  division \<^verbatim>\<open>secs // 60\<close> is NaN and \<^verbatim>\<open>int\<close> of it raises ValueError. For a
  finite float that is not below 60, \<^verbatim>\<open>secs // 60\<close> is the floor division of doubles
  and \<^verbatim>\<open>secs % 60\<close> is the exact remainder.
\<close>

definition fmt_duration ::
  "(string \<Rightarrow> pyfloat option) \<Rightarrow> (pyval \<Rightarrow> string) \<Rightarrow> pyval \<Rightarrow> exn_class + string" where
  "fmt_duration parse repr v =
     (if v = PyNone then Inr ''N/A''
      else case py_float parse v of
             Inl e \<Rightarrow> fmt_fallback repr v e
           | Inr secs \<Rightarrow>
               if float_lt secs (Fin 60) then Inr (float_format 1 secs @ ''s'')
               else (case secs of
                       Fin x \<Rightarrow>
                         (let mins = float_floordiv x 60;
                              remaining = x - 60 * of_int \<lfloor>x / 60\<rfloor>
                          in Inr (str_int mins @ ''m '' @ format_fixed 0 remaining @ ''s''))
                     | _ \<Rightarrow> fmt_fallback repr v ValueError))"

lemmas fmt_eval =
  fmt_duration_def fmt_percent_def fmt_fallback_def format_fixed_def round_half_even_def
  Let_def zero_pad_def str_nat.simps str_int_def digit_char_def
  float_of_real_def round_double_def binary_exponent_def pow2_def bit_length.simps


lemma format_fixed_whole:
  "format_fixed 0 x = (if x < 0 then ''-'' else '''') @ str_nat (nat (round_half_even \<bar>x\<bar>))"
  by (simp add: format_fixed_def Let_def)



text \<open>
  An integer below \<open>2 ^ 53\<close> in magnitude is a double, so rounding leaves it alone; hence
  the floor division of a float below \<open>2 ^ 53\<close> by 60 is the exact floor.
\<close>

lemma bit_length_le: "n < 2 ^ k \<Longrightarrow> bit_length n \<le> k"
proof (induction k arbitrary: n)
  case 0
  then show ?case by (simp add: bit_length.simps)
next
  case (Suc k)
  show ?case
  proof (cases "n = 0")
    case True
    then show ?thesis by (simp add: bit_length.simps)
  next
    case False
    from Suc.prems have "n div 2 < 2 ^ k" by simp
    then have "bit_length (n div 2) \<le> k" by (rule Suc.IH)
    with False show ?thesis by (subst bit_length.simps) simp
  qed
qed

lemma round_half_even_of_int: "round_half_even (of_int m) = m"
  by (simp add: round_half_even_def)

lemma round_double_of_int:
  assumes "\<bar>n\<bar> < 2 ^ 53"
  shows "round_double (of_int n) = of_int n"
proof (cases "n = 0")
  case True
  then show ?thesis by (simp add: round_double_def)
next
  case False
  define b where "b = bit_length (nat \<bar>n\<bar>)"
  from assms have "nat \<bar>n\<bar> < 2 ^ 53" by (simp add: nat_less_iff)
  then have b53: "b \<le> 53" unfolding b_def by (rule bit_length_le)
  from False have "nat \<bar>n\<bar> \<noteq> 0" by simp
  then have b1: "1 \<le> b" unfolding b_def by (subst bit_length.simps) simp
  from False have one: "1 \<le> \<bar>of_int n :: real\<bar>"
  proof -
    from False have "1 \<le> \<bar>n\<bar>" by simp
    then have "(of_int 1 :: real) \<le> of_int \<bar>n\<bar>" by (simp only: of_int_le_iff)
    then show ?thesis by simp
  qed
  have fl: "nat \<lfloor>\<bar>of_int n :: real\<bar>\<rfloor> = nat \<bar>n\<bar>"
  proof -
    have "\<bar>of_int n :: real\<bar> = of_int \<bar>n\<bar>" by simp
    then show ?thesis by (simp only: floor_of_int)
  qed
  have e: "binary_exponent (of_int n) = int b - 1"
    using one by (simp add: binary_exponent_def fl b_def)
  define j where "j = 53 - b"
  have ulp: "pow2 (int b - 53) = 1 / 2 ^ j"
  proof (cases "b = 53")
    case True
    then show ?thesis by (simp add: pow2_def j_def)
  next
    case False
    with b53 have "int b - 53 < 0" and "nat (- (int b - 53)) = j"
      by (simp_all add: j_def)
    then show ?thesis by (simp add: pow2_def)
  qed
  have "(of_int n * 2 ^ j :: real) = of_int (n * 2 ^ j)" by simp
  then have r: "round_half_even (of_int n * 2 ^ j) = n * 2 ^ j"
    by (simp only: round_half_even_of_int)
  from False b1 show ?thesis
    by (simp add: round_double_def e ulp r Let_def)
qed

text \<open>More generally, so is every integer of that size scaled by a power of two.\<close>

lemma round_double_scaled:
  assumes "\<bar>n\<bar> < 2 ^ 53"
  shows "round_double (of_int n * 2 ^ k) = of_int n * 2 ^ k"
proof (cases "n = 0")
  case True
  then show ?thesis by (simp add: round_double_def)
next
  case False
  define N where "N = nat \<bar>n\<bar> * 2 ^ k"
  define b where "b = bit_length N"
  from assms have "nat \<bar>n\<bar> < 2 ^ 53" by (simp add: nat_less_iff)
  then have "N < 2 ^ 53 * 2 ^ k" unfolding N_def by simp
  then have "N < 2 ^ (53 + k)" by (simp add: power_add)
  then have bk: "b \<le> 53 + k" unfolding b_def by (rule bit_length_le)
  from False have N0: "N \<noteq> 0" by (simp add: N_def)
  then have b1: "1 \<le> b" unfolding b_def by (subst bit_length.simps) simp
  have absp: "\<bar>of_int n * 2 ^ k :: real\<bar> = of_nat N"
    by (simp add: N_def abs_mult)
  from N0 have one: "1 \<le> \<bar>of_int n * 2 ^ k :: real\<bar>"
    unfolding absp by simp
  have e: "binary_exponent (of_int n * 2 ^ k) = int b - 1"
    using one unfolding binary_exponent_def absp b_def by simp
  define j where "j = 53 + k - b"
  have ulp: "pow2 (int b - 53) * 2 ^ j = 2 ^ k"
  proof (cases "53 \<le> b")
    case True
    then have "pow2 (int b - 53) = 2 ^ (b - 53)"
      by (simp add: pow2_def nat_diff_distrib)
    moreover from True bk have "(b - 53) + j = k" by (simp add: j_def)
    ultimately show ?thesis by (simp add: power_add [symmetric])
  next
    case False
    then have "pow2 (int b - 53) = 1 / 2 ^ (53 - b)"
      by (simp add: pow2_def nat_diff_distrib)
    moreover from False have "j = k + (53 - b)" by (simp add: j_def)
    ultimately show ?thesis by (simp add: power_add)
  qed
  have pos: "pow2 (int b - 53) \<noteq> 0"
    by (simp add: pow2_def)
  have "of_int n * 2 ^ k / pow2 (int b - 53) = of_int n * (pow2 (int b - 53) * 2 ^ j) / pow2 (int b - 53)"
    by (simp only: ulp)
  also have "\<dots> = of_int n * 2 ^ j"
    using pos by simp
  also have "\<dots> = of_int (n * 2 ^ j)"
    by simp
  finally have q: "of_int n * 2 ^ k / pow2 (int b - 53) = of_int (n * 2 ^ j)" .
  have r: "round_half_even (of_int n * 2 ^ k / pow2 (int b - 53)) = n * 2 ^ j"
    unfolding q by (rule round_half_even_of_int)
  have mx: "max (int b - 1) (- 1022) - 52 = int b - 53"
    using b1 by simp
  have "round_double (of_int n * 2 ^ k) = of_int (n * 2 ^ j) * pow2 (int b - 53)"
    using False by (simp only: round_double_def e mx r Let_def) simp
  also have "\<dots> = of_int n * (pow2 (int b - 53) * 2 ^ j)"
    by simp
  also have "\<dots> = of_int n * 2 ^ k"
    by (simp only: ulp)
  finally show ?thesis .
qed

lemma float_floordiv_exact:
  assumes "0 \<le> x" and "x < 2 ^ 53"
  shows "float_floordiv x 60 = \<lfloor>x / 60\<rfloor>"
proof -
  define k where "k = \<lfloor>x / 60\<rfloor>"
  have k0: "0 \<le> k" using assms(1) by (simp add: k_def)
  have "of_int k \<le> x / 60" unfolding k_def by (rule of_int_floor_le)
  then have le: "(of_int (60 * k) :: real) \<le> x" by simp
  with assms(2) have "(of_int (60 * k) :: real) < 2 ^ 53" by simp
  then have "(of_int (60 * k) :: real) < of_int (2 ^ 53)" by simp
  then have b60: "60 * k < 2 ^ 53" by (simp only: of_int_less_iff)
  with k0 have a60: "\<bar>60 * k\<bar> < 2 ^ 53" and ak: "\<bar>k\<bar> < 2 ^ 53" by simp_all
  have d: "x - (x - 60 * of_int k) = of_int (60 * k)" by simp
  have r1: "round_double (x - (x - 60 * of_int k)) = of_int (60 * k)"
    unfolding d using a60 by (rule round_double_of_int)
  have r2: "round_double (of_int (60 * k) / 60) = of_int k"
    using round_double_of_int [OF ak] by simp
  show ?thesis
    unfolding float_floordiv_def Let_def k_def [symmetric] r1 r2 by simp
qed

text \<open>
  Above that range the floor division of doubles rounds: for \<^verbatim>\<open>1e22\<close> the
  difference \<^verbatim>\<open>1e22 - 40.0\<close> is \<^verbatim>\<open>1e22\<close> again, and the quotient by 60 is the
  double \<open>166666666666666655744\<close>, not the floor \<open>166666666666666666666\<close>.
\<close>

lemma float_floordiv_rounds: "float_floordiv (10 ^ 22) 60 = 166666666666666655744"
proof -
  have a: "round_double 9999999999999999999960 = 10000000000000000000000"
    by (simp add: round_double_def binary_exponent_def pow2_def bit_length.simps
        round_half_even_def Let_def)
  have b: "round_double (500000000000000000000 / 3) = 166666666666666655744"
    by (simp add: round_double_def binary_exponent_def pow2_def bit_length.simps
        round_half_even_def Let_def)
  show ?thesis
    by (simp add: float_floordiv_def a b)
qed



text \<open>
  Further values of the filters: the cases of the unit tests (an int, a numeric string),
  a tie rounded to the even neighbour, the doubles nearest to 0.855, 0.695, 0.015 and
  0.005 (each lies off the decimal it approximates, yet its double product with 100 is
  an exact tie), seconds that round up to 60, an int that is not a double,
  and the inputs on which the filters leave the numeric branches: NaN and
  infinity come back as their text, and an int beyond the range of a double makes
  \<^verbatim>\<open>float\<close> raise OverflowError, which the handler does not catch.
\<close>

lemma fmt_filters_examples:
  "fmt_duration parse repr (PyInt 0) = Inr ''0.0s''"
  "parse ''0.5'' = Some (Fin (1 / 2)) \<Longrightarrow> fmt_percent parse repr (PyStr ''0.5'') = Inr ''50%''"
  "fmt_percent parse repr (PyFloat (Fin 0)) = Inr ''0%''"
  "fmt_percent parse repr (PyFloat (Fin 1)) = Inr ''100%''"
  "fmt_percent parse repr (PyFloat (Fin (1 / 8))) = Inr ''12%''"
  "fmt_percent parse repr (PyFloat (Fin (1925288840700887 / 2 ^ 51))) = Inr ''86%''"
  "fmt_percent parse repr (PyFloat (Fin (6260003482044989 / 2 ^ 53))) = Inr ''70%''"
  "fmt_percent parse repr (PyFloat (Fin (1080863910568919 / 2 ^ 56))) = Inr ''2%''"
  "fmt_percent parse repr (PyFloat (Fin (5764607523034235 / 2 ^ 60))) = Inr ''0%''"
  "fmt_duration parse repr (PyFloat (Fin (1197 / 10))) = Inr ''1m 60s''"
  "fmt_percent parse repr (PyInt (2 ^ 53 + 1)) = Inr ''900719925474099200%''"
  "fmt_duration parse repr (PyFloat (Fin (- 5))) = Inr ''-5.0s''"
  "fmt_duration parse repr (PyFloat NaN) = Inr ''nan''"
  "fmt_duration parse repr (PyFloat PInf) = Inr ''inf''"
  "fmt_duration parse repr (PyFloat NInf) = Inr ''-infs''"
  "fmt_percent parse repr (PyFloat NaN) = Inr ''nan%''"
  "fmt_duration parse repr (PyInt (2 ^ 1024)) = Inl OverflowError"
  by (simp_all add: fmt_eval float_floordiv_exact)

text \<open>
  The double \<^verbatim>\<open>2.0 ** 1023\<close> times 100 is beyond the largest double: the product is
  infinity and the percentage filter returns "inf%". The duration \<^verbatim>\<open>1e22\<close> has
  minutes that are not the exact floor.
\<close>

lemma times100_overflow: "times100 (Fin (2 ^ 1023)) = PInf"
proof -
  have "round_double (of_int 25 * 2 ^ 1025) = of_int 25 * 2 ^ 1025"
    by (rule round_double_scaled) simp
  moreover have "(2 :: real) ^ 1023 * 100 = of_int 25 * 2 ^ 1025"
    by simp
  ultimately have "round_double (2 ^ 1023 * 100) = 2 ^ 1023 * 100"
    by (simp only:)
  then show ?thesis
    by (simp add: float_of_real_def)
qed

lemma fmt_filters_large_values:
  "fmt_percent parse repr (PyFloat (Fin (2 ^ 1023))) = Inr ''inf%''"
  "fmt_duration parse repr (PyFloat (Fin (10 ^ 22))) = Inr ''166666666666666655744m 40s''"
proof -
  show "fmt_percent parse repr (PyFloat (Fin (2 ^ 1023))) = Inr ''inf%''"
    by (simp only: fmt_percent_def py_float.simps times100_overflow float_format.simps
        pyval.distinct if_False sum.case append.simps)
  show "fmt_duration parse repr (PyFloat (Fin (10 ^ 22))) = Inr ''166666666666666655744m 40s''"
    by (simp add: fmt_duration_def format_fixed_whole float_floordiv_rounds [simplified]
        str_int_def str_nat.simps digit_char_def round_half_even_def Let_def)
qed

section \<open>Investigation records (src/db/models.py, src/db/repository.py)\<close>

text \<open>
  An \<^verbatim>\<open>InvestigationRecord\<close> is read and written by attribute name
  (\<^verbatim>\<open>hasattr\<close>, \<^verbatim>\<open>setattr\<close>), so a record is its attribute values by name. The
  attributes are the mapped columns of the class; the attributes that the ORM base
  class adds are not modelled.
\<close>

type_synonym investigation_record = "string \<Rightarrow> pyval"

definition record_columns :: "string list" where
  "record_columns =
     [''id'', ''scenario_type'', ''alert_data'', ''status'', ''plan_data'',
      ''findings_data'', ''reasoning_trace'', ''agent_errors'', ''root_cause'',
      ''confidence'', ''recommendation'', ''remediation_action'', ''report_data'',
      ''created_at'', ''completed_at'', ''duration_seconds'']"

definition hasattr :: "investigation_record \<Rightarrow> string \<Rightarrow> bool" where
  "hasattr r key = (key \<in> set record_columns)"

definition setattr :: "investigation_record \<Rightarrow> string \<Rightarrow> pyval \<Rightarrow> investigation_record" where
  "setattr r key v = r(key := v)"

text \<open>
  The session is the table of records. \<^verbatim>\<open>session.get(InvestigationRecord, id)\<close>
  finds the record with that primary key; committing writes the changed record back in
  its place. The database's own checks at commit time are not modelled: commit and
  refresh succeed.
\<close>

type_synonym session = "investigation_record list"

definition session_get :: "session \<Rightarrow> string \<Rightarrow> investigation_record option" where
  "session_get rows investigation_id = find (\<lambda>r. r ''id'' = PyStr investigation_id) rows"

fun session_commit :: "string \<Rightarrow> investigation_record \<Rightarrow> session \<Rightarrow> session" where
  "session_commit investigation_id r' [] = []"
| "session_commit investigation_id r' (r # rows) =
     (if r ''id'' = PyStr investigation_id then r' # rows
      else r # session_commit investigation_id r' rows)"

text \<open>The loop over \<^verbatim>\<open>kwargs.items()\<close>, in the order of the keyword arguments.\<close>

fun apply_kwargs :: "(string \<times> pyval) list \<Rightarrow> investigation_record \<Rightarrow> investigation_record" where
  "apply_kwargs [] r = r"
| "apply_kwargs ((key, v) # kwargs) r =
     apply_kwargs kwargs (if hasattr r key then setattr r key v else r)"

definition update_investigation ::
  "session \<Rightarrow> string \<Rightarrow> (string \<times> pyval) list \<Rightarrow> investigation_record option \<times> session" where
  "update_investigation rows investigation_id kwargs =
     (case session_get rows investigation_id of
        None \<Rightarrow> (None, rows)
      | Some r \<Rightarrow>
          (let r' = apply_kwargs kwargs r
           in (Some r', session_commit investigation_id r' rows)))"

text \<open>The keyword arguments that name a column.\<close>

definition recognized :: "(string \<times> pyval) list \<Rightarrow> (string \<times> pyval) list" where
  "recognized kwargs = filter (\<lambda>(key, v). key \<in> set record_columns) kwargs"

lemma apply_kwargs_value:
  "apply_kwargs kwargs r key =
     (case map_of (rev (recognized kwargs)) key of None \<Rightarrow> r key | Some v \<Rightarrow> v)"
proof (induction kwargs arbitrary: r)
  case Nil
  then show ?case by (simp add: recognized_def)
next
  case (Cons kv kwargs)
  obtain k v where kv: "kv = (k, v)" by (cases kv)
  show ?case
  proof (cases "k \<in> set record_columns")
    case True
    have "apply_kwargs (kv # kwargs) r key = apply_kwargs kwargs (r(k := v)) key"
      using True by (simp add: kv hasattr_def setattr_def)
    also have "\<dots> = (case map_of (rev (recognized kwargs)) key of
                        None \<Rightarrow> (r(k := v)) key | Some w \<Rightarrow> w)"
      by (rule Cons.IH)
    also have "\<dots> = (case map_of (rev (recognized (kv # kwargs))) key of
                        None \<Rightarrow> r key | Some w \<Rightarrow> w)"
      using True by (simp add: kv recognized_def map_add_def split: option.splits)
    finally show ?thesis .
  next
    case False
    then show ?thesis
      using Cons.IH [of r] by (simp add: kv recognized_def hasattr_def)
  qed
qed

lemma apply_kwargs_recognized: "apply_kwargs (recognized kwargs) r = apply_kwargs kwargs r"
  by (induction kwargs arbitrary: r) (auto simp: recognized_def hasattr_def)

lemma session_commit_untouched:
  "r \<in> set rows \<Longrightarrow> r ''id'' \<noteq> PyStr investigation_id \<Longrightarrow>
     r \<in> set (session_commit investigation_id r' rows)"
  by (induction rows) auto

text \<open>
  C8. Updating an investigation record by id: when no record has the id, the result is
  absent and the session is unchanged; when a record has it, the returned record holds,
  for each keyword argument that names a column, the value supplied (the last one, if
  a name is given twice) and its old value in every other attribute; keyword arguments
  that name no column change nothing, and every record with another id stays in the
  session.
\<close>

theorem update_investigation_selective:
  "(session_get rows investigation_id = None \<longrightarrow>
      update_investigation rows investigation_id kwargs = (None, rows))
   \<and> (session_get rows investigation_id = Some r \<longrightarrow>
      (\<exists>r'. update_investigation rows investigation_id kwargs =
              (Some r', session_commit investigation_id r' rows)
          \<and> (\<forall>key. r' key =
                (case map_of (rev (recognized kwargs)) key of
                   None \<Rightarrow> r key | Some v \<Rightarrow> v))
          \<and> (\<forall>key. key \<notin> set record_columns \<longrightarrow> r' key = r key)
          \<and> (\<forall>other \<in> set rows. other ''id'' \<noteq> PyStr investigation_id \<longrightarrow>
                other \<in> set (session_commit investigation_id r' rows))))
   \<and> update_investigation rows investigation_id kwargs =
       update_investigation rows investigation_id (recognized kwargs)"
proof -
  have absent: "session_get rows investigation_id = None \<longrightarrow>
      update_investigation rows investigation_id kwargs = (None, rows)"
    by (simp add: update_investigation_def)
  have unrec: "apply_kwargs kwargs r key = r key" if "key \<notin> set record_columns" for key
  proof -
    have "map_of (rev (recognized kwargs)) key = None"
      using that by (auto simp: recognized_def map_of_eq_None_iff)
    then show ?thesis by (simp add: apply_kwargs_value)
  qed
  have present: "session_get rows investigation_id = Some r \<longrightarrow>
      (\<exists>r'. update_investigation rows investigation_id kwargs =
              (Some r', session_commit investigation_id r' rows)
          \<and> (\<forall>key. r' key =
                (case map_of (rev (recognized kwargs)) key of
                   None \<Rightarrow> r key | Some v \<Rightarrow> v))
          \<and> (\<forall>key. key \<notin> set record_columns \<longrightarrow> r' key = r key)
          \<and> (\<forall>other \<in> set rows. other ''id'' \<noteq> PyStr investigation_id \<longrightarrow>
                other \<in> set (session_commit investigation_id r' rows)))"
  proof
    assume g: "session_get rows investigation_id = Some r"
    let ?r' = "apply_kwargs kwargs r"
    have "update_investigation rows investigation_id kwargs =
            (Some ?r', session_commit investigation_id ?r' rows)"
      using g by (simp add: update_investigation_def Let_def)
    moreover have "\<forall>key. ?r' key =
        (case map_of (rev (recognized kwargs)) key of None \<Rightarrow> r key | Some v \<Rightarrow> v)"
      by (simp add: apply_kwargs_value)
    moreover have "\<forall>key. key \<notin> set record_columns \<longrightarrow> ?r' key = r key"
      using unrec by blast
    moreover have "\<forall>other \<in> set rows. other ''id'' \<noteq> PyStr investigation_id \<longrightarrow>
        other \<in> set (session_commit investigation_id ?r' rows)"
      using session_commit_untouched by blast
    ultimately show "\<exists>r'. update_investigation rows investigation_id kwargs =
              (Some r', session_commit investigation_id r' rows)
          \<and> (\<forall>key. r' key =
                (case map_of (rev (recognized kwargs)) key of
                   None \<Rightarrow> r key | Some v \<Rightarrow> v))
          \<and> (\<forall>key. key \<notin> set record_columns \<longrightarrow> r' key = r key)
          \<and> (\<forall>other \<in> set rows. other ''id'' \<noteq> PyStr investigation_id \<longrightarrow>
                other \<in> set (session_commit investigation_id r' rows))"
      by blast
  qed
  have same: "update_investigation rows investigation_id kwargs =
       update_investigation rows investigation_id (recognized kwargs)"
    by (simp add: update_investigation_def apply_kwargs_recognized split: option.splits)
  from absent present same show ?thesis by blast
qed

theorem update_investigation_selective_witness:
  "session_get [(\<lambda>k. PyNone)(''id'' := PyStr ''a'', ''status'' := PyStr ''detecting'')] ''b'' = None
   \<and> fst (update_investigation
        [(\<lambda>k. PyNone)(''id'' := PyStr ''a'', ''status'' := PyStr ''detecting'')] ''b''
        [(''status'', PyStr ''completed'')]) = None
   \<and> snd (update_investigation
        [(\<lambda>k. PyNone)(''id'' := PyStr ''a'', ''status'' := PyStr ''detecting'')] ''b''
        [(''status'', PyStr ''completed'')])
       = [(\<lambda>k. PyNone)(''id'' := PyStr ''a'', ''status'' := PyStr ''detecting'')]
   \<and> update_investigation
        [(\<lambda>k. PyNone)(''id'' := PyStr ''a'', ''status'' := PyStr ''detecting'')] ''a''
        [(''status'', PyStr ''completed''), (''colour'', PyStr ''red'')]
       = update_investigation
        [(\<lambda>k. PyNone)(''id'' := PyStr ''a'', ''status'' := PyStr ''detecting'')] ''a''
        (recognized [(''status'', PyStr ''completed''), (''colour'', PyStr ''red'')])"
proof -
  let ?rows = "[(\<lambda>k. PyNone)(''id'' := PyStr ''a'', ''status'' := PyStr ''detecting'')]"
  have none: "session_get ?rows ''b'' = None"
    by (simp add: session_get_def)
  from update_investigation_selective [where rows = ?rows and investigation_id = "''b''"
      and kwargs = "[(''status'', PyStr ''completed'')]"] none
  have one: "update_investigation ?rows ''b'' [(''status'', PyStr ''completed'')] = (None, ?rows)"
    by blast
  from update_investigation_selective [where rows = ?rows and investigation_id = "''a''"
      and kwargs = "[(''status'', PyStr ''completed''), (''colour'', PyStr ''red'')]"]
  have two: "update_investigation ?rows ''a''
        [(''status'', PyStr ''completed''), (''colour'', PyStr ''red'')]
       = update_investigation ?rows ''a''
        (recognized [(''status'', PyStr ''completed''), (''colour'', PyStr ''red'')])"
    by blast
  from none one two show ?thesis by simp
qed

text \<open>
  The update at work: the recognized field is written, the unrecognized one is dropped.
\<close>

lemma update_investigation_example:
  "fst (update_investigation
        [(\<lambda>k. PyNone)(''id'' := PyStr ''a'', ''status'' := PyStr ''detecting'')] ''a''
        [(''status'', PyStr ''completed''), (''colour'', PyStr ''red'')])
   = Some ((\<lambda>k. PyNone)(''id'' := PyStr ''a'', ''status'' := PyStr ''completed''))"
  by (simp add: update_investigation_def session_get_def hasattr_def setattr_def
        record_columns_def Let_def)

section \<open>Domain records (src/core/models.py)\<close>

text \<open>
  Modelled from the spec: the module \<^verbatim>\<open>src/core/models.py\<close> is not among the sources;
  the records and enumerations below follow section 3 of the specification and the
  constructor calls in the sources. A timestamp is a naive \<^verbatim>\<open>datetime\<close>, modelled as
  its count of microseconds; the range check of \<^verbatim>\<open>datetime\<close> arithmetic (years 1 to
  9999) is not modelled.
\<close>

datatype service_name =
    API_GATEWAY | CHECKOUT_SERVICE | PAYMENT_GATEWAY | INVENTORY_SERVICE
  | USER_AUTH | NOTIFICATION_SERVICE | POSTGRES_DB | REDIS_CACHE

fun service_value :: "service_name \<Rightarrow> string" where
  "service_value API_GATEWAY = ''api-gateway''"
| "service_value CHECKOUT_SERVICE = ''checkout-service''"
| "service_value PAYMENT_GATEWAY = ''payment-gateway''"
| "service_value INVENTORY_SERVICE = ''inventory-service''"
| "service_value USER_AUTH = ''user-auth''"
| "service_value NOTIFICATION_SERVICE = ''notification-service''"
| "service_value POSTGRES_DB = ''postgres-db''"
| "service_value REDIS_CACHE = ''redis-cache''"

datatype severity = CRITICAL | HIGH | MEDIUM | LOW

datatype change_type = CONFIG_CHANGE | CODE_DEPLOY | ROLLBACK

datatype investigation_status =
  DETECTING | PLANNING | INVESTIGATING | DECIDING | ACTING | REPORTING | COMPLETED | FAILED

type_synonym datetime = int

record log_entry =
  log_timestamp :: datetime
  log_service :: service_name
  log_level :: string
  log_message :: string
  log_trace_id :: "string option"
  log_stack_trace :: "string option"

record metric_data_point =
  metric_timestamp :: datetime
  metric_service :: service_name
  metric_name :: string
  metric_value :: real

record deployment_event =
  deploy_id :: string
  deploy_timestamp :: datetime
  deploy_service :: service_name
  deploy_change_type :: change_type
  deploy_description :: string
  deploy_commit_sha :: "string option"
  deploy_author :: string

record alert =
  alert_id :: string
  alert_service :: service_name
  alert_metric :: string
  alert_value :: real
  alert_threshold :: real
  alert_severity :: severity
  alert_timestamp :: datetime
  alert_description :: string

record mock_data_set =
  scenario_name :: string
  logs :: "log_entry list"
  metrics :: "metric_data_point list"
  deployments :: "deployment_event list"
  dataset_alert :: alert

section \<open>Strings\<close>

text \<open>
  \<^verbatim>\<open>str.upper\<close> and \<^verbatim>\<open>str.lower\<close> on ASCII text; characters outside the Latin
  letters are left as they are (Python's case mapping of other scripts is not modelled).
\<close>

definition upper_char :: "char \<Rightarrow> char" where
  "upper_char c =
     (case map_of (zip ''abcdefghijklmnopqrstuvwxyz'' ''ABCDEFGHIJKLMNOPQRSTUVWXYZ'') c of
        Some u \<Rightarrow> u | None \<Rightarrow> c)"

definition lower_char :: "char \<Rightarrow> char" where
  "lower_char c =
     (case map_of (zip ''ABCDEFGHIJKLMNOPQRSTUVWXYZ'' ''abcdefghijklmnopqrstuvwxyz'') c of
        Some l \<Rightarrow> l | None \<Rightarrow> c)"

definition upper :: "string \<Rightarrow> string" where
  "upper s = map upper_char s"

definition lower :: "string \<Rightarrow> string" where
  "lower s = map lower_char s"

text \<open>\<^verbatim>\<open>kw in s\<close>: \<open>kw\<close> occurs in \<open>s\<close> as a contiguous piece.\<close>

fun contains :: "string \<Rightarrow> string \<Rightarrow> bool" where
  "contains kw [] = (kw = [])"
| "contains kw (c # cs) = (take (length kw) (c # cs) = kw \<or> contains kw cs)"

text \<open>\<^verbatim>\<open>sep.join(parts)\<close>.\<close>

fun join :: "string \<Rightarrow> string list \<Rightarrow> string" where
  "join sep [] = []"
| "join sep [x] = x"
| "join sep (x # y # ys) = x @ sep @ join sep (y # ys)"

text \<open>\<^verbatim>\<open>xs[:limit]\<close>: a negative limit counts from the end.\<close>

definition slice_to :: "int \<Rightarrow> 'a list \<Rightarrow> 'a list" where
  "slice_to limit xs =
     (if 0 \<le> limit then take (nat limit) xs
      else take (length xs - nat (- limit)) xs)"

text \<open>The truth value of an optional string: \<^verbatim>\<open>None\<close> and the empty string are false.\<close>

fun given :: "string option \<Rightarrow> bool" where
  "given None = False"
| "given (Some s) = (s \<noteq> [])"

section \<open>Log search (src/agents/tools.py, search_logs)\<close>

text \<open>The five filters of \<^verbatim>\<open>search_logs\<close>, each applied only when its argument is true.\<close>

definition filter_service :: "string option \<Rightarrow> log_entry list \<Rightarrow> log_entry list" where
  "filter_service service entries =
     (case service of
        Some s \<Rightarrow> if s \<noteq> [] then filter (\<lambda>e. service_value (log_service e) = s) entries
                  else entries
      | None \<Rightarrow> entries)"

definition filter_level :: "string option \<Rightarrow> log_entry list \<Rightarrow> log_entry list" where
  "filter_level level entries =
     (case level of
        Some l \<Rightarrow> if l \<noteq> [] then filter (\<lambda>e. log_level e = upper l) entries else entries
      | None \<Rightarrow> entries)"

definition filter_time_start :: "datetime option \<Rightarrow> log_entry list \<Rightarrow> log_entry list" where
  "filter_time_start time_start entries =
     (case time_start of
        Some t \<Rightarrow> filter (\<lambda>e. t \<le> log_timestamp e) entries
      | None \<Rightarrow> entries)"

definition filter_time_end :: "datetime option \<Rightarrow> log_entry list \<Rightarrow> log_entry list" where
  "filter_time_end time_end entries =
     (case time_end of
        Some t \<Rightarrow> filter (\<lambda>e. log_timestamp e \<le> t) entries
      | None \<Rightarrow> entries)"

definition keyword_match :: "string \<Rightarrow> log_entry \<Rightarrow> bool" where
  "keyword_match kw e =
     (contains kw (lower (log_message e))
      \<or> (case log_stack_trace e of
            Some st \<Rightarrow> st \<noteq> [] \<and> contains kw (lower st)
          | None \<Rightarrow> False))"

definition filter_keyword :: "string option \<Rightarrow> log_entry list \<Rightarrow> log_entry list" where
  "filter_keyword keyword entries =
     (case keyword of
        Some k \<Rightarrow> if k \<noteq> [] then filter (keyword_match (lower k)) entries else entries
      | None \<Rightarrow> entries)"

text \<open>The entries that \<^verbatim>\<open>search_logs\<close> goes on to render: filtered, then cut.\<close>

definition search_logs_entries ::
  "mock_data_set \<Rightarrow> string option \<Rightarrow> string option \<Rightarrow> datetime option \<Rightarrow> datetime option
     \<Rightarrow> string option \<Rightarrow> int \<Rightarrow> log_entry list" where
  "search_logs_entries mock_data service level time_start time_end keyword limit =
     slice_to limit
       (filter_keyword keyword
         (filter_time_end time_end
           (filter_time_start time_start
             (filter_level level
               (filter_service service (logs mock_data))))))"

definition no_log_entries :: string where
  "no_log_entries = ''No log entries found matching the given filters.''"

definition newline :: string where
  "newline = [CHR 0x0A]"

text \<open>
  One rendered entry. \<^verbatim>\<open>datetime.isoformat\<close> is library code and is the parameter
  \<open>isoformat\<close>.
\<close>

definition log_line :: "(datetime \<Rightarrow> string) \<Rightarrow> log_entry \<Rightarrow> string" where
  "log_line isoformat e =
     ''['' @ isoformat (log_timestamp e) @ ''] ['' @ service_value (log_service e) @ ''] ''
       @ log_level e @ '': '' @ log_message e
       @ (if given (log_trace_id e) then '' (trace_id='' @ the (log_trace_id e) @ '')'' else '''')
       @ (if given (log_stack_trace e)
          then newline @ ''  Stack: '' @ take 300 (the (log_stack_trace e)) else '''')"

definition search_logs ::
  "(datetime \<Rightarrow> string) \<Rightarrow> mock_data_set \<Rightarrow> string option \<Rightarrow> string option
     \<Rightarrow> datetime option \<Rightarrow> datetime option \<Rightarrow> string option \<Rightarrow> int \<Rightarrow> string" where
  "search_logs isoformat mock_data service level time_start time_end keyword limit =
     (let entries = search_logs_entries mock_data service level time_start time_end keyword limit
      in if entries = [] then no_log_entries
         else ''Found '' @ str_nat (length entries) @ '' log entries:'' @ newline @ newline
                @ join (newline @ newline) (map (log_line isoformat) entries))"

text \<open>What an entry must satisfy to get through the five filters.\<close>

definition passes_filters ::
  "string option \<Rightarrow> string option \<Rightarrow> datetime option \<Rightarrow> datetime option \<Rightarrow> string option
     \<Rightarrow> log_entry \<Rightarrow> bool" where
  "passes_filters service level time_start time_end keyword e =
     ((case service of Some s \<Rightarrow> s = [] \<or> service_value (log_service e) = s | None \<Rightarrow> True)
      \<and> (case level of Some l \<Rightarrow> l = [] \<or> log_level e = upper l | None \<Rightarrow> True)
      \<and> (case time_start of Some t \<Rightarrow> t \<le> log_timestamp e | None \<Rightarrow> True)
      \<and> (case time_end of Some t \<Rightarrow> log_timestamp e \<le> t | None \<Rightarrow> True)
      \<and> (case keyword of Some k \<Rightarrow> k = [] \<or> keyword_match (lower k) e | None \<Rightarrow> True))"

text \<open>
  The filters in the words of the specification: the level is matched without regard to
  case on either side.
\<close>

definition passes_filters_spec ::
  "string option \<Rightarrow> string option \<Rightarrow> datetime option \<Rightarrow> datetime option \<Rightarrow> string option
     \<Rightarrow> log_entry \<Rightarrow> bool" where
  "passes_filters_spec service level time_start time_end keyword e =
     ((case service of Some s \<Rightarrow> service_value (log_service e) = s | None \<Rightarrow> True)
      \<and> (case level of Some l \<Rightarrow> lower (log_level e) = lower l | None \<Rightarrow> True)
      \<and> (case time_start of Some t \<Rightarrow> t \<le> log_timestamp e | None \<Rightarrow> True)
      \<and> (case time_end of Some t \<Rightarrow> log_timestamp e \<le> t | None \<Rightarrow> True)
      \<and> (case keyword of
            Some k \<Rightarrow> contains (lower k) (lower (log_message e))
                      \<or> (case log_stack_trace e of
                            Some st \<Rightarrow> contains (lower k) (lower st) | None \<Rightarrow> False)
          | None \<Rightarrow> True))"

lemma filters_compose:
  "filter_keyword keyword
     (filter_time_end time_end
       (filter_time_start time_start
         (filter_level level (filter_service service entries))))
   = filter (passes_filters service level time_start time_end keyword) entries"
proof -
  have s: "filter_service service xs =
      filter (\<lambda>e. case service of Some s \<Rightarrow> s = [] \<or> service_value (log_service e) = s
                               | None \<Rightarrow> True) xs" for xs
    by (simp add: filter_service_def split: option.splits)
  have l: "filter_level level xs =
      filter (\<lambda>e. case level of Some l \<Rightarrow> l = [] \<or> log_level e = upper l | None \<Rightarrow> True) xs"
    for xs
    by (simp add: filter_level_def split: option.splits)
  have a: "filter_time_start time_start xs =
      filter (\<lambda>e. case time_start of Some t \<Rightarrow> t \<le> log_timestamp e | None \<Rightarrow> True) xs" for xs
    by (simp add: filter_time_start_def split: option.splits)
  have b: "filter_time_end time_end xs =
      filter (\<lambda>e. case time_end of Some t \<Rightarrow> log_timestamp e \<le> t | None \<Rightarrow> True) xs" for xs
    by (simp add: filter_time_end_def split: option.splits)
  have k: "filter_keyword keyword xs =
      filter (\<lambda>e. case keyword of Some k \<Rightarrow> k = [] \<or> keyword_match (lower k) e
                               | None \<Rightarrow> True) xs" for xs
    by (simp add: filter_keyword_def split: option.splits)
  show ?thesis
    unfolding s l a b k filter_filter passes_filters_def
    by (rule filter_cong) auto
qed

lemma slice_to_empty:
  "1 \<le> limit \<Longrightarrow> (slice_to limit xs = []) = (xs = [])"
  by (cases xs) (auto simp: slice_to_def nat_eq_iff)

lemma found_not_sentinel: "''Found '' @ rest \<noteq> no_log_entries"
  by (simp add: no_log_entries_def)

text \<open>
  C7 (amended). \<^verbatim>\<open>search_logs\<close> renders the entries that pass every filter whose
  argument is given and non-empty, in input order, cut by \<^verbatim>\<open>[:limit]\<close> (the first
  \<open>limit\<close> of them when \<open>limit\<close> is not negative): service equality, the entry's level
  equal to the upper-cased level argument, inclusive time bounds, the lower-cased
  keyword inside the lower-cased message or stack trace. It returns the sentinel exactly
  when the cut selection is empty; for a limit of at least 1 that is exactly when no
  entry passes the filters.
\<close>

theorem search_logs_selection:
  "search_logs_entries ds service level time_start time_end keyword limit =
     slice_to limit (filter (passes_filters service level time_start time_end keyword) (logs ds))
   \<and> (0 \<le> limit \<longrightarrow>
        search_logs_entries ds service level time_start time_end keyword limit =
          take (nat limit)
            (filter (passes_filters service level time_start time_end keyword) (logs ds)))
   \<and> ((search_logs isoformat ds service level time_start time_end keyword limit = no_log_entries)
        = (search_logs_entries ds service level time_start time_end keyword limit = []))
   \<and> (search_logs_entries ds service level time_start time_end keyword limit \<noteq> [] \<longrightarrow>
        search_logs isoformat ds service level time_start time_end keyword limit =
          ''Found ''
          @ str_nat (length (search_logs_entries ds service level time_start time_end keyword limit))
          @ '' log entries:'' @ newline @ newline
          @ join (newline @ newline)
              (map (log_line isoformat)
                 (search_logs_entries ds service level time_start time_end keyword limit)))
   \<and> (1 \<le> limit \<longrightarrow>
        (search_logs isoformat ds service level time_start time_end keyword limit = no_log_entries)
        = (filter (passes_filters service level time_start time_end keyword) (logs ds) = []))"
proof -
  let ?sel = "search_logs_entries ds service level time_start time_end keyword limit"
  let ?pass = "filter (passes_filters service level time_start time_end keyword) (logs ds)"
  have sel: "?sel = slice_to limit ?pass"
    by (simp add: search_logs_entries_def filters_compose)
  have cut: "0 \<le> limit \<longrightarrow> ?sel = take (nat limit) ?pass"
    by (simp add: sel slice_to_def)
  have sentinel: "(search_logs isoformat ds service level time_start time_end keyword limit
        = no_log_entries) = (?sel = [])"
    by (simp add: search_logs_def Let_def no_log_entries_def)
  have found: "?sel \<noteq> [] \<longrightarrow>
        search_logs isoformat ds service level time_start time_end keyword limit =
          ''Found '' @ str_nat (length ?sel) @ '' log entries:'' @ newline @ newline
          @ join (newline @ newline) (map (log_line isoformat) ?sel)"
    by (simp add: search_logs_def Let_def)
  have pos: "1 \<le> limit \<longrightarrow>
        (search_logs isoformat ds service level time_start time_end keyword limit = no_log_entries)
        = (?pass = [])"
    using slice_to_empty [of limit ?pass] by (simp add: sentinel sel)
  from sel cut sentinel found pos show ?thesis by blast
qed

text \<open>Sample data for the evaluations below.\<close>

definition sample_alert :: alert where
  "sample_alert =
     \<lparr> alert_id = ''test-alert-001'', alert_service = CHECKOUT_SERVICE,
       alert_metric = ''p99_latency_ms'', alert_value = 2000, alert_threshold = 500,
       alert_severity = CRITICAL, alert_timestamp = 0,
       alert_description = ''Checkout service p99 latency spiked to 2000ms'' \<rparr>"

definition sample_entry :: "string \<Rightarrow> log_entry" where
  "sample_entry lvl =
     \<lparr> log_timestamp = 0, log_service = CHECKOUT_SERVICE, log_level = lvl,
       log_message = ''DB connection timeout'', log_trace_id = None,
       log_stack_trace = None \<rparr>"

definition sample_data :: "log_entry list \<Rightarrow> mock_data_set" where
  "sample_data entries =
     \<lparr> scenario_name = ''latent_config_bug'', logs = entries, metrics = [],
       deployments = [], dataset_alert = sample_alert \<rparr>"

theorem search_logs_selection_witness:
  "search_logs (\<lambda>t. ''T'') (sample_data [sample_entry ''INFO'', sample_entry ''ERROR''])
      None (Some ''error'') None None (Some ''TIMEOUT'') 50
     = ''Found 1 log entries:'' @ newline @ newline
         @ ''[T] [checkout-service] ERROR: DB connection timeout''
   \<and> filter (passes_filters None (Some ''error'') None None (Some ''TIMEOUT''))
        (logs (sample_data [sample_entry ''INFO'', sample_entry ''ERROR'']))
       = [sample_entry ''ERROR'']
   \<and> (search_logs (\<lambda>t. ''T'') (sample_data [sample_entry ''INFO'', sample_entry ''ERROR''])
        None (Some ''debug'') None None None 50 = no_log_entries)
       = (filter (passes_filters None (Some ''debug'') None None None)
            (logs (sample_data [sample_entry ''INFO'', sample_entry ''ERROR''])) = [])"
proof -
  let ?ds = "sample_data [sample_entry ''INFO'', sample_entry ''ERROR'']"
  have sel: "search_logs_entries ?ds None (Some ''error'') None None (Some ''TIMEOUT'') 50
      = [sample_entry ''ERROR'']"
    by code_simp
  have line: "log_line (\<lambda>t. ''T'') (sample_entry ''ERROR'')
      = ''[T] [checkout-service] ERROR: DB connection timeout''"
    by code_simp
  have one: "str_nat (Suc 0) = ''1''"
    by code_simp
  have lim: "(1::int) \<le> 50" and lim0: "(0::int) \<le> 50" by simp_all
  note inst = search_logs_selection [where ds = ?ds and service = None
      and level = "Some ''error''" and time_start = None and time_end = None
      and keyword = "Some ''TIMEOUT''" and limit = 50 and isoformat = "\<lambda>t. ''T''"]
  from inst sel have out: "search_logs (\<lambda>t. ''T'') ?ds None (Some ''error'') None None
      (Some ''TIMEOUT'') 50
     = ''Found 1 log entries:'' @ newline @ newline
         @ ''[T] [checkout-service] ERROR: DB connection timeout''"
    by (simp add: line one)
  have pass:
    "filter (passes_filters None (Some ''error'') None None (Some ''TIMEOUT'')) (logs ?ds)
       = [sample_entry ''ERROR'']"
    by code_simp
  from search_logs_selection [where ds = ?ds and service = None
      and level = "Some ''debug''" and time_start = None and time_end = None
      and keyword = None and limit = 50 and isoformat = "\<lambda>t. ''T''"] lim
  have none: "(search_logs (\<lambda>t. ''T'') ?ds None (Some ''debug'') None None None 50
        = no_log_entries)
       = (filter (passes_filters None (Some ''debug'') None None None) (logs ?ds) = [])"
    by blast
  from out pass none show ?thesis by blast
qed

text \<open>
  The claim as the specification words it fails on the code in two ways. With
  \<open>limit = 0\<close> the sentinel is returned although an entry passes every filter. And an
  entry whose level is written in lower case is not found by a level argument in any
  case, not even by the same text: only the argument is upper-cased.
\<close>

theorem search_logs_claim_counterexample:
  "passes_filters_spec None None None None None (sample_entry ''ERROR'')
   \<and> search_logs (\<lambda>t. ''T'') (sample_data [sample_entry ''ERROR'']) None None None None None 0
       = no_log_entries
   \<and> passes_filters_spec None (Some ''error'') None None None (sample_entry ''error'')
   \<and> search_logs (\<lambda>t. ''T'') (sample_data [sample_entry ''error''])
        None (Some ''error'') None None None 50
       = no_log_entries"
  by code_simp

section \<open>Findings, plans, reports and the workflow state\<close>

text \<open>
  Modelled from the spec: \<^verbatim>\<open>AgentFinding\<close>, \<^verbatim>\<open>InvestigationPlan\<close>,
  \<^verbatim>\<open>TimelineEvent\<close> and \<^verbatim>\<open>RCAReport\<close> of \<^verbatim>\<open>src/core/models.py\<close>, with the
  defaults that section 3 of the specification gives (an empty evidence list, an empty
  list of relevant timestamps, no raw data, confidence 0.0).
\<close>

record agent_finding =
  finding_agent_name :: string
  finding_summary :: string
  finding_evidence :: "string list"
  finding_confidence :: pyfloat
  finding_relevant_timestamps :: "datetime list"
  finding_raw_data :: "pyval option"

record investigation_plan =
  plan_hypothesis :: string
  plan_tasks :: "string list"
  plan_priority_services :: "service_name list"
  plan_time_window_start :: datetime
  plan_time_window_end :: datetime

record timeline_event =
  event_timestamp :: datetime
  event_description :: string
  event_source :: string

record rca_report =
  report_investigation_id :: string
  report_alert :: alert
  report_status :: investigation_status
  report_plan :: "investigation_plan option"
  report_findings :: "agent_finding list"
  report_root_cause :: string
  report_confidence :: pyfloat
  report_timeline :: "timeline_event list"
  report_recommendation :: string
  report_remediation_action :: "string option"

text \<open>
  \<^verbatim>\<open>InvestigationState\<close> (src/core/state.py) is a dictionary. The alert and the data set
  are read with \<^verbatim>\<open>state[...]\<close> and are always there; a key that the nodes read with
  \<^verbatim>\<open>state.get\<close> is an option, \<open>None\<close> for a missing key. The values of
  \<^verbatim>\<open>root_cause\<close> and \<^verbatim>\<open>recommendation\<close> are themselves optional text: \<open>Some None\<close> is
  the key holding Python's \<^verbatim>\<open>None\<close>, as in the runner's initial state. For the plan,
  the report and the remediation action a missing key and \<^verbatim>\<open>None\<close> read the same.
\<close>

record investigation_state =
  state_alert :: alert
  state_mock_data :: mock_data_set
  state_status :: investigation_status
  state_plan :: "investigation_plan option"
  state_root_cause :: "string option option"
  state_recommendation :: "string option option"
  state_confidence :: "pyfloat option"
  state_findings :: "agent_finding list option"
  state_agent_errors :: "string list option"
  state_reasoning_trace :: "string list option"
  state_report :: "rca_report option"
  state_remediation_action :: "string option"
  state_iteration :: int

text \<open>The initial state that \<^verbatim>\<open>InvestigationRunner._run\<close> builds (src/core/runner.py).\<close>

definition initial_state :: "mock_data_set \<Rightarrow> investigation_state" where
  "initial_state mock_data =
     \<lparr> state_alert = dataset_alert mock_data, state_mock_data = mock_data,
       state_status = DETECTING, state_plan = None, state_root_cause = Some None,
       state_recommendation = Some None, state_confidence = Some (Fin 0),
       state_findings = Some [], state_agent_errors = Some [],
       state_reasoning_trace = Some [], state_report = None,
       state_remediation_action = None, state_iteration = 0 \<rparr>"

text \<open>
  What a specialist agent node returns: its contribution to the three list fields. A
  key that the returned dictionary leaves out is the empty list here, which is the same
  to the additive merge below.
\<close>

record agent_update =
  update_findings :: "agent_finding list"
  update_agent_errors :: "string list"
  update_reasoning_trace :: "string list"

text \<open>
  The merge of a node's return value into the state: the three list fields are declared
  with \<^verbatim>\<open>operator.add\<close> as their reducer (src/core/state.py), so the contribution is
  appended.
\<close>

definition or_empty :: "'a list option \<Rightarrow> 'a list" where
  "or_empty xs = (case xs of None \<Rightarrow> [] | Some ys \<Rightarrow> ys)"

definition apply_agent_update :: "investigation_state \<Rightarrow> agent_update \<Rightarrow> investigation_state" where
  "apply_agent_update st u =
     st\<lparr> state_findings := Some (or_empty (state_findings st) @ update_findings u),
         state_agent_errors := Some (or_empty (state_agent_errors st) @ update_agent_errors u),
         state_reasoning_trace :=
           Some (or_empty (state_reasoning_trace st) @ update_reasoning_trace u) \<rparr>"

section \<open>Exceptions and the world outside\<close>

text \<open>An exception: its class and the text that \<^verbatim>\<open>str(e)\<close> gives.\<close>

datatype exn = Exn exn_class string

fun exn_text :: "exn \<Rightarrow> string" where
  "exn_text (Exn c msg) = msg"

text \<open>
  What the nodes get from outside the repository, as inputs of the model: the settings
  (or the exception that loading them raises), the outcome of waiting for the rate
  limiter, the reply of the language model to a user prompt (the system prompt is a
  constant of the call), the JSON parser (\<open>None\<close> for a \<^verbatim>\<open>JSONDecodeError\<close>), the
  text of the exceptions that the interpreter and the validation library raise, the
  library's rendering of timestamps and floats, the clock and fresh identifiers.
\<close>

record world =
  get_settings :: "exn + settings"
  limiter_acquire :: "exn option"
  llm_invoke :: "string \<Rightarrow> exn + string"
  json_loads :: "string \<Rightarrow> pyval option"
  float_parse :: "string \<Rightarrow> pyfloat option"
  error_text :: "exn_class \<Rightarrow> pyval \<Rightarrow> string"
  isoformat :: "datetime \<Rightarrow> string"
  float_str :: "real \<Rightarrow> string"
  utcnow :: "nat \<Rightarrow> datetime"
  fresh_id :: string

text \<open>\<^verbatim>\<open>timedelta(minutes=m)\<close> for a whole number of minutes, in microseconds.\<close>

definition minutes :: "int \<Rightarrow> int" where
  "minutes m = m * 60000000"

section \<open>Logs agent (src/agents/logs_agent.py)\<close>

text \<open>\<^verbatim>\<open>data.get(key, default)\<close>; on a value that is not a dict it raises AttributeError.\<close>

definition data_get :: "world \<Rightarrow> pyval \<Rightarrow> string \<Rightarrow> pyval \<Rightarrow> exn + pyval" where
  "data_get w data key dflt =
     (case data of
        PyDict kvs \<Rightarrow> Inr (case map_of kvs key of Some v \<Rightarrow> v | None \<Rightarrow> dflt)
      | _ \<Rightarrow> Inl (Exn AttributeError (error_text w AttributeError data)))"

text \<open>\<^verbatim>\<open>float(v)\<close> with the exception it raises.\<close>

definition to_float :: "world \<Rightarrow> pyval \<Rightarrow> exn + pyfloat" where
  "to_float w v =
     (case py_float (float_parse w) v of
        Inr f \<Rightarrow> Inr f
      | Inl c \<Rightarrow> Inl (Exn c (error_text w c v)))"

text \<open>
  Modelled from the spec: the validation of the \<^verbatim>\<open>AgentFinding\<close> constructor, which
  is in \<^verbatim>\<open>src/core/models.py\<close>: the summary is text and the evidence a list of text.
\<close>

fun as_text :: "pyval \<Rightarrow> string option" where
  "as_text (PyStr s) = Some s"
| "as_text v = None"

fun as_text_list :: "pyval \<Rightarrow> string list option" where
  "as_text_list (PyList vs) =
     (if list_all (\<lambda>v. as_text v \<noteq> None) vs then Some (map (\<lambda>v. the (as_text v)) vs) else None)"
| "as_text_list v = None"

definition make_finding ::
  "world \<Rightarrow> string \<Rightarrow> pyval \<Rightarrow> pyval \<Rightarrow> pyfloat \<Rightarrow> pyval \<Rightarrow> exn + agent_finding" where
  "make_finding w name summary evidence confidence raw =
     (case as_text summary of
        None \<Rightarrow> Inl (Exn ValidationError (error_text w ValidationError summary))
      | Some s \<Rightarrow>
          (case as_text_list evidence of
             None \<Rightarrow> Inl (Exn ValidationError (error_text w ValidationError evidence))
           | Some ev \<Rightarrow>
               Inr \<lparr> finding_agent_name = name, finding_summary = s, finding_evidence = ev,
                     finding_confidence = confidence, finding_relevant_timestamps = [],
                     finding_raw_data = Some raw \<rparr>))"

text \<open>The user prompt of the logs agent.\<close>

definition logs_user_prompt ::
  "world \<Rightarrow> alert \<Rightarrow> investigation_plan option \<Rightarrow> string \<Rightarrow> string \<Rightarrow> string \<Rightarrow> string" where
  "logs_user_prompt w a plan error_logs warn_logs service_logs =
     ''## Incident Context'' @ newline
     @ ''Alert: '' @ alert_description a @ newline
     @ ''Service: '' @ service_value (alert_service a) @ newline
     @ ''Metric: '' @ alert_metric a @ '' = '' @ float_str w (alert_value a)
       @ '' (threshold: '' @ float_str w (alert_threshold a) @ '')'' @ newline
     @ ''Alert Time: '' @ isoformat w (alert_timestamp a) @ newline
     @ (case plan of Some p \<Rightarrow> ''Hypothesis: '' @ plan_hypothesis p @ newline | None \<Rightarrow> '''')
     @ newline @ ''## ERROR Logs (all services)'' @ newline @ error_logs @ newline @ newline
     @ ''## WARN Logs'' @ newline @ warn_logs @ newline @ newline
     @ ''## All logs for '' @ service_value (alert_service a) @ newline @ service_logs
     @ newline @ newline
     @ ''Analyze these logs. What is the root cause?''"

text \<open>The parsed reply, or the substitute built when the reply is not JSON.\<close>

definition logs_parse_reply :: "world \<Rightarrow> string \<Rightarrow> pyval" where
  "logs_parse_reply w content =
     (case json_loads w content of
        Some data \<Rightarrow> data
      | None \<Rightarrow>
          PyDict [(''summary'', PyStr (take 500 content)),
                  (''evidence'', PyList [PyStr (take 200 content)]),
                  (''confidence'', PyFloat (Fin (1 / 2))),
                  (''relevant_timestamps'', PyList [])])"

text \<open>The finding built from the reply data (lines 124 to 131).\<close>

definition logs_finding :: "world \<Rightarrow> pyval \<Rightarrow> exn + agent_finding" where
  "logs_finding w data =
     (case data_get w data ''summary'' (PyStr ''Log analysis completed'') of
        Inl e \<Rightarrow> Inl e
      | Inr summary \<Rightarrow>
     (case data_get w data ''evidence'' (PyList []) of
        Inl e \<Rightarrow> Inl e
      | Inr evidence \<Rightarrow>
     (case data_get w data ''confidence'' (PyFloat (Fin (1 / 2))) of
        Inl e \<Rightarrow> Inl e
      | Inr c \<Rightarrow>
     (case to_float w c of
        Inl e \<Rightarrow> Inl e
      | Inr confidence \<Rightarrow>
          make_finding w ''logs_agent'' summary evidence confidence data))))"

text \<open>The body of the \<^verbatim>\<open>try\<close> block of \<^verbatim>\<open>logs_agent_node\<close>.\<close>

definition logs_agent_try :: "world \<Rightarrow> investigation_state \<Rightarrow> exn + agent_update" where
  "logs_agent_try w st =
     (case get_settings w of
        Inl e \<Rightarrow> Inl e
      | Inr cfg \<Rightarrow>
          (let a = state_alert st;
               mock_data = state_mock_data st;
               plan = state_plan st;
               time_end = alert_timestamp a + minutes 10;
               time_start = alert_timestamp a - minutes (investigation_time_window_minutes cfg);
               error_logs = search_logs (isoformat w) mock_data None (Some ''ERROR'')
                              (Some time_start) (Some time_end) None 50;
               warn_logs = search_logs (isoformat w) mock_data None (Some ''WARN'')
                              (Some time_start) (Some time_end) None 20;
               service_logs = search_logs (isoformat w) mock_data
                              (Some (service_value (alert_service a))) None
                              (Some time_start) (Some time_end) None 50;
               user_prompt = logs_user_prompt w a plan error_logs warn_logs service_logs
           in case limiter_acquire w of
                Some e \<Rightarrow> Inl e
              | None \<Rightarrow>
                  (case llm_invoke w user_prompt of
                     Inl e \<Rightarrow> Inl e
                   | Inr content \<Rightarrow>
                       (case logs_finding w (logs_parse_reply w content) of
                          Inl e \<Rightarrow> Inl e
                        | Inr finding \<Rightarrow>
                            Inr \<lparr> update_findings = [finding],
                                  update_agent_errors = [],
                                  update_reasoning_trace =
                                    [''[Logs Agent] '' @ finding_summary finding] \<rparr>))))"

text \<open>The handler \<^verbatim>\<open>except Exception as e\<close>.\<close>

definition logs_agent_failed :: "exn \<Rightarrow> agent_update" where
  "logs_agent_failed e =
     \<lparr> update_findings =
         [\<lparr> finding_agent_name = ''logs_agent'',
            finding_summary = ''Log analysis failed: '' @ exn_text e,
            finding_evidence = [], finding_confidence = Fin 0,
            finding_relevant_timestamps = [], finding_raw_data = None \<rparr>],
       update_agent_errors = [''logs_agent: '' @ exn_text e],
       update_reasoning_trace = [''[Logs Agent] FAILED: '' @ exn_text e] \<rparr>"

definition logs_agent_node :: "world \<Rightarrow> investigation_state \<Rightarrow> agent_update" where
  "logs_agent_node w st =
     (case logs_agent_try w st of
        Inr u \<Rightarrow> u
      | Inl e \<Rightarrow> logs_agent_failed e)"

lemma logs_agent_try_sources:
  "get_settings w = Inl e \<Longrightarrow> logs_agent_try w st = Inl e"
  "get_settings w = Inr cfg \<Longrightarrow> limiter_acquire w = Some e \<Longrightarrow> logs_agent_try w st = Inl e"
  "get_settings w = Inr cfg \<Longrightarrow> limiter_acquire w = None \<Longrightarrow> llm_invoke w = (\<lambda>p. Inl e)
     \<Longrightarrow> logs_agent_try w st = Inl e"
  by (simp_all add: logs_agent_try_def Let_def)

lemma logs_finding_not_dict:
  "(\<forall>kvs. data \<noteq> PyDict kvs) \<Longrightarrow>
     logs_finding w data = Inl (Exn AttributeError (error_text w AttributeError data))"
  by (cases data) (simp_all add: logs_finding_def data_get_def)

text \<open>
  C1. When anything in the \<^verbatim>\<open>try\<close> block of the logs agent raises an exception \<open>e\<close>
  (loading the settings, the rate limiter, the call of the language model, the reading
  of the reply), the node still returns: exactly one finding, named \<^verbatim>\<open>logs_agent\<close>,
  with confidence 0.0 and a summary that ends in the error text, and the entry
  \<^verbatim>\<open>logs_agent: <error text>\<close>, which the merge appends to the state's agent errors.
\<close>

theorem logs_agent_failure_isolated:
  "(logs_agent_try w st = Inl e \<longrightarrow>
      update_findings (logs_agent_node w st) =
        [\<lparr> finding_agent_name = ''logs_agent'',
           finding_summary = ''Log analysis failed: '' @ exn_text e,
           finding_evidence = [], finding_confidence = Fin 0,
           finding_relevant_timestamps = [], finding_raw_data = None \<rparr>]
      \<and> update_agent_errors (logs_agent_node w st) = [''logs_agent: '' @ exn_text e]
      \<and> state_agent_errors (apply_agent_update st (logs_agent_node w st)) =
          Some (or_empty (state_agent_errors st) @ [''logs_agent: '' @ exn_text e])
      \<and> state_findings (apply_agent_update st (logs_agent_node w st)) =
          Some (or_empty (state_findings st) @ update_findings (logs_agent_node w st)))
   \<and> (get_settings w = Inl e \<longrightarrow> logs_agent_try w st = Inl e)
   \<and> (get_settings w = Inr cfg \<and> limiter_acquire w = Some e \<longrightarrow> logs_agent_try w st = Inl e)
   \<and> (get_settings w = Inr cfg \<and> limiter_acquire w = None \<and> llm_invoke w = (\<lambda>p. Inl e) \<longrightarrow>
        logs_agent_try w st = Inl e)
   \<and> (get_settings w = Inr cfg \<and> limiter_acquire w = None \<and> llm_invoke w = (\<lambda>p. Inr content)
        \<and> json_loads w content = Some (PyList vs) \<longrightarrow>
        logs_agent_try w st =
          Inl (Exn AttributeError (error_text w AttributeError (PyList vs))))"
proof -
  have handler: "logs_agent_try w st = Inl e \<longrightarrow>
      update_findings (logs_agent_node w st) =
        [\<lparr> finding_agent_name = ''logs_agent'',
           finding_summary = ''Log analysis failed: '' @ exn_text e,
           finding_evidence = [], finding_confidence = Fin 0,
           finding_relevant_timestamps = [], finding_raw_data = None \<rparr>]
      \<and> update_agent_errors (logs_agent_node w st) = [''logs_agent: '' @ exn_text e]
      \<and> state_agent_errors (apply_agent_update st (logs_agent_node w st)) =
          Some (or_empty (state_agent_errors st) @ [''logs_agent: '' @ exn_text e])
      \<and> state_findings (apply_agent_update st (logs_agent_node w st)) =
          Some (or_empty (state_findings st) @ update_findings (logs_agent_node w st))"
    by (simp add: logs_agent_node_def logs_agent_failed_def apply_agent_update_def)
  have shape: "get_settings w = Inr cfg \<and> limiter_acquire w = None
        \<and> llm_invoke w = (\<lambda>p. Inr content) \<and> json_loads w content = Some (PyList vs) \<longrightarrow>
        logs_agent_try w st =
          Inl (Exn AttributeError (error_text w AttributeError (PyList vs)))"
    by (simp add: logs_agent_try_def Let_def logs_parse_reply_def logs_finding_not_dict)
  have src1: "get_settings w = Inl e \<longrightarrow> logs_agent_try w st = Inl e"
    by (simp add: logs_agent_try_sources(1))
  have src2: "get_settings w = Inr cfg \<and> limiter_acquire w = Some e \<longrightarrow> logs_agent_try w st = Inl e"
    by (simp add: logs_agent_try_sources(2))
  have src3: "get_settings w = Inr cfg \<and> limiter_acquire w = None \<and> llm_invoke w = (\<lambda>p. Inl e) \<longrightarrow>
        logs_agent_try w st = Inl e"
    by (simp add: logs_agent_try_sources(3))
  from handler shape src1 src2 src3 show ?thesis by blast
qed

text \<open>A world for the evaluations: the settings load, the limiter lets the call through.\<close>

definition sample_world :: "(string \<Rightarrow> exn + string) \<Rightarrow> (string \<Rightarrow> pyval option) \<Rightarrow> world" where
  "sample_world llm loads =
     \<lparr> get_settings = Inr default_settings, limiter_acquire = None, llm_invoke = llm,
       json_loads = loads, float_parse = (\<lambda>s. None), error_text = (\<lambda>c v. ''invalid''),
       isoformat = (\<lambda>t. ''T''), float_str = (\<lambda>x. ''0.0''), utcnow = (\<lambda>k. 0),
       fresh_id = ''0123456789abcdef'' \<rparr>"

theorem logs_agent_failure_isolated_witness:
  "logs_agent_try (sample_world (\<lambda>p. Inl (Exn OtherError ''rate limit reached'')) (\<lambda>s. None))
      (initial_state (sample_data [])) = Inl (Exn OtherError ''rate limit reached'')
   \<and> update_findings
       (logs_agent_node (sample_world (\<lambda>p. Inl (Exn OtherError ''rate limit reached'')) (\<lambda>s. None))
          (initial_state (sample_data []))) =
        [\<lparr> finding_agent_name = ''logs_agent'',
           finding_summary = ''Log analysis failed: rate limit reached'',
           finding_evidence = [], finding_confidence = Fin 0,
           finding_relevant_timestamps = [], finding_raw_data = None \<rparr>]
   \<and> state_agent_errors
       (apply_agent_update (initial_state (sample_data []))
          (logs_agent_node (sample_world (\<lambda>p. Inl (Exn OtherError ''rate limit reached'')) (\<lambda>s. None))
             (initial_state (sample_data [])))) =
        Some [''logs_agent: rate limit reached'']"
proof -
  let ?e = "Exn OtherError ''rate limit reached''"
  let ?w = "sample_world (\<lambda>p. Inl ?e) (\<lambda>s. None)"
  let ?st = "initial_state (sample_data [])"
  have s: "get_settings ?w = Inr default_settings" and a: "limiter_acquire ?w = None"
    and l: "llm_invoke ?w = (\<lambda>p. Inl ?e)"
    by (simp_all add: sample_world_def)
  have errs: "or_empty (state_agent_errors ?st) = []"
    by (simp add: initial_state_def or_empty_def)
  note inst = logs_agent_failure_isolated [where w = ?w and st = ?st and e = ?e
      and cfg = default_settings and content = "''''" and vs = "[]"]
  from inst s a l have t: "logs_agent_try ?w ?st = Inl ?e" by blast
  from inst t errs show ?thesis by simp
qed

lemma as_text_list_strs: "as_text_list (PyList (map PyStr ev)) = Some ev"
  by (simp add: list_all_iff comp_def)

lemma make_finding_fields:
  "make_finding w name summary evidence confidence raw = Inr f \<Longrightarrow>
     finding_relevant_timestamps f = [] \<and> finding_raw_data f = Some raw
     \<and> finding_agent_name f = name \<and> finding_confidence f = confidence"
  by (auto simp: make_finding_def split: option.splits)

lemma logs_finding_fields:
  "logs_finding w data = Inr f \<Longrightarrow>
     finding_relevant_timestamps f = [] \<and> finding_raw_data f = Some data
     \<and> finding_agent_name f = ''logs_agent''"
  by (auto simp: logs_finding_def split: sum.splits dest: make_finding_fields)

lemma logs_agent_try_findings:
  "logs_agent_try w st = Inr u \<Longrightarrow>
     \<exists>f. update_findings u = [f] \<and> finding_relevant_timestamps f = []"
  by (auto simp: logs_agent_try_def Let_def split: sum.splits option.splits
        dest: logs_finding_fields)

text \<open>
  C10. For a reply that parses as a JSON object of the required shape (a text summary,
  a list of evidence texts, a numeric confidence, a list of relevant timestamps), the
  finding that the logs agent returns has an empty list of relevant timestamps, whatever
  the reply's list holds; the parsed reply, timestamps included, is kept as the
  finding's raw data. No finding that the node returns, on any path, has a relevant
  timestamp.
\<close>

theorem logs_finding_timestamps_dropped:
  "(get_settings w = Inr cfg \<and> limiter_acquire w = None \<and> llm_invoke w = (\<lambda>p. Inr content)
      \<and> json_loads w content = Some (PyDict kvs)
      \<and> map_of kvs ''summary'' = Some (PyStr s)
      \<and> map_of kvs ''evidence'' = Some (PyList (map PyStr ev))
      \<and> map_of kvs ''confidence'' = Some (PyFloat c)
      \<and> map_of kvs ''relevant_timestamps'' = Some (PyList ts) \<longrightarrow>
      update_findings (logs_agent_node w st) =
        [\<lparr> finding_agent_name = ''logs_agent'', finding_summary = s, finding_evidence = ev,
           finding_confidence = c, finding_relevant_timestamps = [],
           finding_raw_data = Some (PyDict kvs) \<rparr>]
      \<and> update_agent_errors (logs_agent_node w st) = [])
   \<and> (\<forall>f \<in> set (update_findings (logs_agent_node w st)). finding_relevant_timestamps f = [])"
proof -
  have shaped: "update_findings (logs_agent_node w st) =
        [\<lparr> finding_agent_name = ''logs_agent'', finding_summary = s, finding_evidence = ev,
           finding_confidence = c, finding_relevant_timestamps = [],
           finding_raw_data = Some (PyDict kvs) \<rparr>]
      \<and> update_agent_errors (logs_agent_node w st) = []"
    if h: "get_settings w = Inr cfg" "limiter_acquire w = None" "llm_invoke w = (\<lambda>p. Inr content)"
      "json_loads w content = Some (PyDict kvs)"
      "map_of kvs ''summary'' = Some (PyStr s)"
      "map_of kvs ''evidence'' = Some (PyList (map PyStr ev))"
      "map_of kvs ''confidence'' = Some (PyFloat c)"
  proof -
    have f: "logs_finding w (PyDict kvs) =
        Inr \<lparr> finding_agent_name = ''logs_agent'', finding_summary = s, finding_evidence = ev,
           finding_confidence = c, finding_relevant_timestamps = [],
           finding_raw_data = Some (PyDict kvs) \<rparr>"
      using h(5-7) as_text_list_strs [of ev]
      by (simp add: logs_finding_def data_get_def to_float_def make_finding_def)
    have "logs_agent_try w st =
        Inr \<lparr> update_findings =
               [\<lparr> finding_agent_name = ''logs_agent'', finding_summary = s,
                  finding_evidence = ev, finding_confidence = c,
                  finding_relevant_timestamps = [], finding_raw_data = Some (PyDict kvs) \<rparr>],
              update_agent_errors = [],
              update_reasoning_trace = [''[Logs Agent] '' @ s] \<rparr>"
      using h(1-4) f by (simp add: logs_agent_try_def Let_def logs_parse_reply_def)
    then show ?thesis by (simp add: logs_agent_node_def)
  qed
  have always: "\<forall>f \<in> set (update_findings (logs_agent_node w st)).
      finding_relevant_timestamps f = []"
  proof (cases "logs_agent_try w st")
    case (Inl e)
    then show ?thesis by (simp add: logs_agent_node_def logs_agent_failed_def)
  next
    case (Inr u)
    from logs_agent_try_findings [OF Inr] Inr show ?thesis
      by (auto simp: logs_agent_node_def)
  qed
  from shaped always show ?thesis by blast
qed

theorem logs_finding_timestamps_dropped_witness:
  "update_findings
     (logs_agent_node
        (sample_world (\<lambda>p. Inr ''reply'')
           (\<lambda>s. Some (PyDict [(''summary'', PyStr ''pool exhausted''),
                               (''evidence'', PyList [PyStr ''20 timeouts'']),
                               (''confidence'', PyFloat (Fin (85 / 100))),
                               (''relevant_timestamps'',
                                PyList [PyStr ''2025-01-15T10:25:00''])])))
        (initial_state (sample_data []))) =
     [\<lparr> finding_agent_name = ''logs_agent'', finding_summary = ''pool exhausted'',
        finding_evidence = [''20 timeouts''], finding_confidence = Fin (85 / 100),
        finding_relevant_timestamps = [],
        finding_raw_data =
          Some (PyDict [(''summary'', PyStr ''pool exhausted''),
                        (''evidence'', PyList [PyStr ''20 timeouts'']),
                        (''confidence'', PyFloat (Fin (85 / 100))),
                        (''relevant_timestamps'', PyList [PyStr ''2025-01-15T10:25:00''])]) \<rparr>]"
proof -
  let ?kvs = "[(''summary'', PyStr ''pool exhausted''),
               (''evidence'', PyList [PyStr ''20 timeouts'']),
               (''confidence'', PyFloat (Fin (85 / 100))),
               (''relevant_timestamps'', PyList [PyStr ''2025-01-15T10:25:00''])]"
  let ?w = "sample_world (\<lambda>p. Inr ''reply'') (\<lambda>s. Some (PyDict ?kvs))"
  have h: "get_settings ?w = Inr default_settings" "limiter_acquire ?w = None"
    "llm_invoke ?w = (\<lambda>p. Inr ''reply'')" "json_loads ?w ''reply'' = Some (PyDict ?kvs)"
    by (simp_all add: sample_world_def)
  have k: "map_of ?kvs ''summary'' = Some (PyStr ''pool exhausted'')"
    "map_of ?kvs ''evidence'' = Some (PyList (map PyStr [''20 timeouts'']))"
    "map_of ?kvs ''confidence'' = Some (PyFloat (Fin (85 / 100)))"
    "map_of ?kvs ''relevant_timestamps'' = Some (PyList [PyStr ''2025-01-15T10:25:00''])"
    by simp_all
  from logs_finding_timestamps_dropped [where w = ?w and cfg = default_settings
      and content = "''reply''" and kvs = ?kvs and s = "''pool exhausted''"
      and ev = "[''20 timeouts'']" and c = "Fin (85 / 100)"
      and ts = "[PyStr ''2025-01-15T10:25:00'']" and st = "initial_state (sample_data [])"]
    h k
  show ?thesis by blast
qed

text \<open>
  A reply that is not JSON is replaced by a summary cut from its text, with confidence
  0.5; here too the finding has no relevant timestamps.
\<close>

lemma logs_agent_unparsed_reply:
  "update_findings
     (logs_agent_node (sample_world (\<lambda>p. Inr ''no json here'') (\<lambda>s. None))
        (initial_state (sample_data []))) =
     [\<lparr> finding_agent_name = ''logs_agent'', finding_summary = ''no json here'',
        finding_evidence = [''no json here''], finding_confidence = Fin (1 / 2),
        finding_relevant_timestamps = [],
        finding_raw_data =
          Some (PyDict [(''summary'', PyStr ''no json here''),
                        (''evidence'', PyList [PyStr ''no json here'']),
                        (''confidence'', PyFloat (Fin (1 / 2))),
                        (''relevant_timestamps'', PyList [])]) \<rparr>]"
  by (simp add: logs_agent_node_def logs_agent_try_def Let_def sample_world_def
        logs_parse_reply_def logs_finding_def data_get_def to_float_def make_finding_def)

section \<open>Report step (src/agents/commander.py, report_node)\<close>

text \<open>What \<^verbatim>\<open>report_node\<close> returns: the status, the report and one trace entry.\<close>

record report_update =
  update_status :: investigation_status
  update_report :: rca_report
  update_trace :: "string list"

text \<open>
  The timeline: one event per entry of the reasoning trace, each stamped with its own
  reading of the clock (\<open>utcnow w k\<close> is the reading of the \<open>k\<close>-th call).
\<close>

fun timeline_from :: "world \<Rightarrow> nat \<Rightarrow> string list \<Rightarrow> timeline_event list" where
  "timeline_from w k [] = []"
| "timeline_from w k (trace # traces) =
     \<lparr> event_timestamp = utcnow w k, event_description = trace,
       event_source = ''reasoning_trace'' \<rparr> # timeline_from w (Suc k) traces"

text \<open>
  Modelled from the spec: the validation of the \<^verbatim>\<open>RCAReport\<close> constructor
  (\<^verbatim>\<open>src/core/models.py\<close>): the root cause and the recommendation are text, so
  \<^verbatim>\<open>None\<close> is rejected; the investigation id is generated, the status is the one
  passed. (With \<^verbatim>\<open>None\<close> as root cause the later slice \<^verbatim>\<open>root_cause[:100]\<close> would
  raise as well.)
\<close>

definition make_report ::
  "world \<Rightarrow> alert \<Rightarrow> investigation_status \<Rightarrow> investigation_plan option \<Rightarrow> agent_finding list
     \<Rightarrow> string option \<Rightarrow> pyfloat \<Rightarrow> timeline_event list \<Rightarrow> string option \<Rightarrow> string option
     \<Rightarrow> exn + rca_report" where
  "make_report w a status plan findings root_cause confidence timeline recommendation
       remediation =
     (case root_cause of
        None \<Rightarrow> Inl (Exn ValidationError (error_text w ValidationError PyNone))
      | Some rc \<Rightarrow>
          (case recommendation of
             None \<Rightarrow> Inl (Exn ValidationError (error_text w ValidationError PyNone))
           | Some rec \<Rightarrow>
               Inr \<lparr> report_investigation_id = fresh_id w, report_alert = a,
                     report_status = status, report_plan = plan,
                     report_findings = findings, report_root_cause = rc,
                     report_confidence = confidence, report_timeline = timeline,
                     report_recommendation = rec,
                     report_remediation_action = remediation \<rparr>))"

text \<open>\<^verbatim>\<open>state.get(key, default)\<close> for a key whose value may be \<^verbatim>\<open>None\<close>.\<close>

definition get_or :: "'a option option \<Rightarrow> 'a \<Rightarrow> 'a option" where
  "get_or v dflt = (case v of None \<Rightarrow> Some dflt | Some x \<Rightarrow> x)"

definition report_node :: "world \<Rightarrow> investigation_state \<Rightarrow> exn + report_update" where
  "report_node w st =
     (let a = state_alert st;
          plan = state_plan st;
          findings = or_empty (state_findings st);
          root_cause = get_or (state_root_cause st) ''Undetermined'';
          confidence = (case state_confidence st of None \<Rightarrow> Fin 0 | Some c \<Rightarrow> c);
          recommendation = get_or (state_recommendation st) '''';
          remediation = state_remediation_action st;
          timeline = timeline_from w 0 (or_empty (state_reasoning_trace st))
      in case make_report w a COMPLETED plan findings root_cause confidence timeline
                recommendation remediation of
           Inl e \<Rightarrow> Inl e
         | Inr report \<Rightarrow>
             Inr \<lparr> update_status = REPORTING,
                   update_report = report,
                   update_trace =
                     [''[Commander] Investigation complete. ''
                      @ ''Root cause: '' @ take 100 (report_root_cause report) @ ''. ''
                      @ ''Confidence: '' @ float_format 0 (times100 confidence) @ ''%. ''
                      @ ''Report ID: '' @ report_investigation_id report] \<rparr>)"

lemma timeline_from_map:
  "map event_description (timeline_from w k traces) = traces
   \<and> list_all (\<lambda>ev. event_source ev = ''reasoning_trace'') (timeline_from w k traces)
   \<and> length (timeline_from w k traces) = length traces"
  by (induction traces arbitrary: k) auto

text \<open>
  C6 (amended). For every workflow state whose root cause and recommendation are text
  or missing (not \<^verbatim>\<open>None\<close>), the report step returns, and what it returns holds the
  report assembled from the state: the alert, the plan, the findings (none if missing),
  the root cause ("Undetermined" if missing), the confidence (0.0 if missing), one
  timeline event per entry of the reasoning trace, the recommendation (empty if
  missing) and the remediation action, under a freshly generated investigation id and
  with the report's status completed. The workflow status that the step returns is
  reporting.
\<close>

theorem report_node_assembles:
  "state_root_cause st \<noteq> Some None \<and> state_recommendation st \<noteq> Some None \<longrightarrow>
     (\<exists>u. report_node w st = Inr u
        \<and> report_alert (update_report u) = state_alert st
        \<and> report_plan (update_report u) = state_plan st
        \<and> report_findings (update_report u) = or_empty (state_findings st)
        \<and> report_root_cause (update_report u) =
            (case state_root_cause st of Some (Some rc) \<Rightarrow> rc | _ \<Rightarrow> ''Undetermined'')
        \<and> report_confidence (update_report u) =
            (case state_confidence st of None \<Rightarrow> Fin 0 | Some c \<Rightarrow> c)
        \<and> map event_description (report_timeline (update_report u)) =
            or_empty (state_reasoning_trace st)
        \<and> report_recommendation (update_report u) =
            (case state_recommendation st of Some (Some r) \<Rightarrow> r | _ \<Rightarrow> '''')
        \<and> report_remediation_action (update_report u) = state_remediation_action st
        \<and> report_investigation_id (update_report u) = fresh_id w
        \<and> report_status (update_report u) = COMPLETED
        \<and> update_status u = REPORTING)"
proof
  assume h: "state_root_cause st \<noteq> Some None \<and> state_recommendation st \<noteq> Some None"
  obtain rc where rc: "get_or (state_root_cause st) ''Undetermined'' = Some rc"
    "rc = (case state_root_cause st of Some (Some rc) \<Rightarrow> rc | _ \<Rightarrow> ''Undetermined'')"
    using h by (auto simp: get_or_def split: option.splits)
  obtain r where r: "get_or (state_recommendation st) '''' = Some r"
    "r = (case state_recommendation st of Some (Some r) \<Rightarrow> r | _ \<Rightarrow> '''')"
    using h by (auto simp: get_or_def split: option.splits)
  show "\<exists>u. report_node w st = Inr u
        \<and> report_alert (update_report u) = state_alert st
        \<and> report_plan (update_report u) = state_plan st
        \<and> report_findings (update_report u) = or_empty (state_findings st)
        \<and> report_root_cause (update_report u) =
            (case state_root_cause st of Some (Some rc) \<Rightarrow> rc | _ \<Rightarrow> ''Undetermined'')
        \<and> report_confidence (update_report u) =
            (case state_confidence st of None \<Rightarrow> Fin 0 | Some c \<Rightarrow> c)
        \<and> map event_description (report_timeline (update_report u)) =
            or_empty (state_reasoning_trace st)
        \<and> report_recommendation (update_report u) =
            (case state_recommendation st of Some (Some r) \<Rightarrow> r | _ \<Rightarrow> '''')
        \<and> report_remediation_action (update_report u) = state_remediation_action st
        \<and> report_investigation_id (update_report u) = fresh_id w
        \<and> report_status (update_report u) = COMPLETED
        \<and> update_status u = REPORTING"
    using rc(2) r(2)
    by (simp add: report_node_def Let_def make_report_def rc(1) r(1) timeline_from_map)
qed

text \<open>A state as the decide step leaves it: root cause and recommendation are text.\<close>

definition decided_state :: investigation_state where
  "decided_state =
     (initial_state (sample_data []))
       \<lparr> state_status := DECIDING,
         state_root_cause := Some (Some ''DB connection pool exhausted''),
         state_recommendation := Some (Some ''Rollback the config change''),
         state_confidence := Some (Fin (85 / 100)),
         state_reasoning_trace := Some [''[Commander] Alert detected''] \<rparr>"

text \<open>
  The claim as worded fails twice on the code. On the runner's initial state, where the
  root cause is \<^verbatim>\<open>None\<close>, the step raises and assembles no report. And on a state on
  which it returns, the status it sets in the workflow state is reporting, not
  completed: completed is the status field of the report.
\<close>

theorem report_node_claim_counterexample:
  "report_node (sample_world (\<lambda>p. Inr '''') (\<lambda>s. None)) (initial_state (sample_data []))
     = Inl (Exn ValidationError ''invalid'')
   \<and> map_sum id update_status
       (report_node (sample_world (\<lambda>p. Inr '''') (\<lambda>s. None)) decided_state) = Inr REPORTING
   \<and> REPORTING \<noteq> COMPLETED"
proof -
  let ?w = "sample_world (\<lambda>p. Inr '''') (\<lambda>s. None)"
  have a: "get_or (state_root_cause (initial_state (sample_data []))) ''Undetermined'' = None"
    by (simp add: initial_state_def get_or_def)
  have b: "error_text ?w ValidationError PyNone = ''invalid''"
    by (simp add: sample_world_def)
  have one: "report_node ?w (initial_state (sample_data [])) = Inl (Exn ValidationError ''invalid'')"
    by (simp add: report_node_def Let_def make_report_def a b)
  have c: "get_or (state_root_cause decided_state) ''Undetermined''
      = Some ''DB connection pool exhausted''"
    "get_or (state_recommendation decided_state) '''' = Some ''Rollback the config change''"
    by (simp_all add: decided_state_def get_or_def)
  have two: "map_sum id update_status (report_node ?w decided_state) = Inr REPORTING"
    by (simp add: report_node_def Let_def make_report_def c)
  from one two show ?thesis by simp
qed


theorem report_node_assembles_witness:
  "state_root_cause decided_state \<noteq> Some None
   \<and> state_recommendation decided_state \<noteq> Some None
   \<and> (\<exists>u. report_node (sample_world (\<lambda>p. Inr '''') (\<lambda>s. None)) decided_state = Inr u
        \<and> report_root_cause (update_report u) = ''DB connection pool exhausted''
        \<and> report_recommendation (update_report u) = ''Rollback the config change''
        \<and> report_confidence (update_report u) = Fin (85 / 100)
        \<and> map event_description (report_timeline (update_report u)) =
            [''[Commander] Alert detected'']
        \<and> report_investigation_id (update_report u) = ''0123456789abcdef''
        \<and> report_status (update_report u) = COMPLETED
        \<and> update_status u = REPORTING)"
proof -
  let ?w = "sample_world (\<lambda>p. Inr '''') (\<lambda>s. None)"
  have h: "state_root_cause decided_state \<noteq> Some None
      \<and> state_recommendation decided_state \<noteq> Some None"
    by (simp add: decided_state_def)
  have v1: "(case state_root_cause decided_state of Some (Some rc) \<Rightarrow> rc | _ \<Rightarrow> ''Undetermined'')
      = ''DB connection pool exhausted''"
    by (simp add: decided_state_def)
  have v2: "(case state_recommendation decided_state of Some (Some r) \<Rightarrow> r | _ \<Rightarrow> '''')
      = ''Rollback the config change''"
    by (simp add: decided_state_def)
  have v3: "(case state_confidence decided_state of None \<Rightarrow> Fin 0 | Some c \<Rightarrow> c) = Fin (85 / 100)"
    by (simp add: decided_state_def)
  have v4: "or_empty (state_reasoning_trace decided_state) = [''[Commander] Alert detected'']"
    by (simp add: decided_state_def or_empty_def)
  have v5: "fresh_id ?w = ''0123456789abcdef''"
    by (simp add: sample_world_def)
  note ex = mp [OF report_node_assembles [where st = decided_state and w = ?w,
        unfolded v1 v2 v3 v4 v5] h]
  from ex h show ?thesis
    by (elim exE conjE, intro conjI exI) assumption+
qed

end
